theory Spec2Isabelle
  imports Complex_Main
begin

unbundle bit_operations_syntax

section \<open>ROARVR: marker/tracker calibration engine and the tracker datagram server\<close>

text \<open>
  The theory embeds \<^verbatim>\<open>src/camera_d_t.py\<close> (class \<^verbatim>\<open>RS_D_T\<close>) and
  \<^verbatim>\<open>src/vive/vive_tracker_server.py\<close> (class \<^verbatim>\<open>ViveTrackerServer\<close>).

  Conventions of the embedding:
  \<^item> Python floats are read as real numbers; rounding, infinities and not-a-number values
    of IEEE arithmetic are outside the model. The value \<^verbatim>\<open>np.nan\<close> that \<^verbatim>\<open>poll\<close>
    returns is a constructor of the result type, not a number.
  \<^item> numpy arrays of a fixed shape are tuples: a 3-vector, a 4-vector, a 3x3 and a 4x4 matrix
    (a tuple of rows). Arrays whose length depends on the number of detected markers are lists.
  \<^item> Every exception the methods can meet is a value: a method returns \<open>stop + 'a\<close>, the new
    object state and the events it produced, in program order.
  \<^item> The functions of OpenCV and numpy that the class calls (\<^verbatim>\<open>aruco.detectMarkers\<close>,
    \<^verbatim>\<open>aruco.estimatePoseSingleMarkers\<close>, \<^verbatim>\<open>cv2.Rodrigues\<close>, \<^verbatim>\<open>np.linalg.inv\<close>) are
    fields of a record of library functions that every method takes as a parameter.
\<close>

subsection \<open>Vectors and matrices\<close>

type_synonym vec3 = "real \<times> real \<times> real"
type_synonym vec4 = "real \<times> real \<times> real \<times> real"
type_synonym mat3 = "vec3 \<times> vec3 \<times> vec3"
type_synonym mat4 = "vec4 \<times> vec4 \<times> vec4 \<times> vec4"

definition dot4 :: "vec4 \<Rightarrow> vec4 \<Rightarrow> real" where
  "dot4 u v = (case u of (a, b, c, d) \<Rightarrow> case v of (e, f, g, h) \<Rightarrow> a * e + b * f + c * g + d * h)"

definition transpose4 :: "mat4 \<Rightarrow> mat4" where
  "transpose4 A =
     (case A of ((a00, a01, a02, a03), (a10, a11, a12, a13), (a20, a21, a22, a23), (a30, a31, a32, a33)) \<Rightarrow>
        ((a00, a10, a20, a30), (a01, a11, a21, a31), (a02, a12, a22, a32), (a03, a13, a23, a33)))"

text \<open>\<^verbatim>\<open>A @ v\<close> for a 4x4 matrix and a 4-vector.\<close>

definition matvec4 :: "mat4 \<Rightarrow> vec4 \<Rightarrow> vec4" where
  "matvec4 A v = (case A of (r0, r1, r2, r3) \<Rightarrow> (dot4 r0 v, dot4 r1 v, dot4 r2 v, dot4 r3 v))"

text \<open>\<^verbatim>\<open>A @ B\<close> for two 4x4 matrices: column \<open>j\<close> of the product is \<open>A\<close> applied to column \<open>j\<close> of \<open>B\<close>.\<close>

definition matmul4 :: "mat4 \<Rightarrow> mat4 \<Rightarrow> mat4" where
  "matmul4 A B =
     (case transpose4 B of (c0, c1, c2, c3) \<Rightarrow>
        transpose4 (matvec4 A c0, matvec4 A c1, matvec4 A c2, matvec4 A c3))"

text \<open>\<^verbatim>\<open>v[:3]\<close> of a 4-vector.\<close>

definition take3 :: "vec4 \<Rightarrow> vec3" where
  "take3 v = (case v of (a, b, c, d) \<Rightarrow> (a, b, c))"

subsection \<open>Exceptions and the \<^verbatim>\<open>math\<close> module\<close>

datatype exn = RuntimeError | ValueError | TypeError | LinAlgError | cv2_error | UnicodeDecodeError

text \<open>
  \<^verbatim>\<open>sys.exit\<close> raises \<^verbatim>\<open>SystemExit\<close>, which is not a subclass of \<^verbatim>\<open>Exception\<close>:
  an \<^verbatim>\<open>except Exception\<close> clause lets it through.
\<close>

datatype stop = Exception exn | SystemExit int

text \<open>\<^verbatim>\<open>math.asin\<close> raises \<^verbatim>\<open>ValueError\<close> (math domain error) outside \<open>[-1, 1]\<close>.\<close>

definition m_asin :: "real \<Rightarrow> exn + real" where
  "m_asin v = (if - 1 \<le> v \<and> v \<le> 1 then Inr (arcsin v) else Inl ValueError)"

text \<open>\<^verbatim>\<open>math.atan2(y, x)\<close>: the angle of the point \<open>(x, y)\<close>, in \<open>(-pi, pi]\<close>.\<close>

definition m_atan2 :: "real \<Rightarrow> real \<Rightarrow> real" where
  "m_atan2 y x =
     (if 0 < x then arctan (y / x)
      else if x < 0 then (if 0 \<le> y then arctan (y / x) + pi else arctan (y / x) - pi)
      else if 0 < y then pi / 2
      else if y < 0 then - (pi / 2)
      else 0)"

subsection \<open>AngleConverter: \<^verbatim>\<open>rvec_to_rpy\<close>\<close>

text \<open>
  \<^verbatim>\<open>x, y, z, w = tuple(rvec)\<close>; the result is \<^verbatim>\<open>np.array([roll, pitch, yaw])\<close>, which the
  caller reads by index.
\<close>

definition rvec_to_rpy :: "vec4 \<Rightarrow> exn + real list" where
  "rvec_to_rpy rvec =
     (case rvec of (x, y, z, w) \<Rightarrow>
        (case m_asin (2.0 * (x * z - w * y)) of
           Inl e \<Rightarrow> Inl e
         | Inr a \<Rightarrow>
             (let pitch = - a * 180.0 / pi;
                  roll = m_atan2 (2.0 * (w * x + y * z)) (w * w - x * x - y * y + z * z) * 180.0 / pi;
                  yaw = m_atan2 (2.0 * (w * z + x * y)) (w * w + x * x - y * y - z * z) * 180.0 / pi
              in Inr [roll, pitch, yaw])))"

text \<open>The formulas as the specification writes them (section 4.1), for comparison.\<close>

definition spec_pitch :: "real \<Rightarrow> real \<Rightarrow> real \<Rightarrow> real \<Rightarrow> real" where
  "spec_pitch x y z w = - arcsin (2 * (x * z - w * y)) * 180 / pi"

definition spec_roll :: "real \<Rightarrow> real \<Rightarrow> real \<Rightarrow> real \<Rightarrow> real" where
  "spec_roll x y z w = m_atan2 (2 * (w * x + y * z)) (w\<^sup>2 - x\<^sup>2 - y\<^sup>2 + z\<^sup>2) * 180 / pi"

definition spec_yaw :: "real \<Rightarrow> real \<Rightarrow> real \<Rightarrow> real \<Rightarrow> real" where
  "spec_yaw x y z w = m_atan2 (2 * (w * z + x * y)) (w\<^sup>2 + x\<^sup>2 - y\<^sup>2 - z\<^sup>2) * 180 / pi"

subsection \<open>State of the engine, events, and the shape of a method\<close>

text \<open>
  The attributes of \<^verbatim>\<open>RS_D_T\<close> that the methods read or write after construction. The
  marker dictionary, the detector parameters and the block size are set once in
  \<^verbatim>\<open>__init__\<close> and only handed to the library functions; they are part of the library
  record below.
\<close>

record rs_d_t =
  show_gui :: bool
  location :: vec3
  running :: bool
  calibrated :: bool
  use_default_cam2cam :: bool
  detect_mode :: bool
  calibrate_thres :: real
  rgb_mtx :: mat3
  rgb_dist :: "real list"
  t2d :: "mat4 option"
  d2m :: "mat4 option"
  t2m :: "mat4 option"

text \<open>
  The state after a successful \<^verbatim>\<open>__init__(GUI=...)\<close>, with the values of \<^verbatim>\<open>CAM_CONFIG\<close>
  and the intrinsics that the colour stream reports.
\<close>

definition init_RS_D_T :: "bool \<Rightarrow> mat3 \<Rightarrow> real list \<Rightarrow> rs_d_t" where
  "init_RS_D_T GUI mtx coeffs =
     \<lparr>show_gui = GUI, location = (0, 0, 0), running = True, calibrated = False,
      use_default_cam2cam = True, detect_mode = False, calibrate_thres = 1,
      rgb_mtx = mtx, rgb_dist = coeffs,
      t2d = None, d2m = None, t2m = None\<rparr>"

datatype pipe = Pipe_t | Pipe_d

text \<open>
  What is printed or drawn on the image: a literal string, the two angles of the attitude
  message (\<^verbatim>\<open>"roll: {}, yall: {} | expected: both < 1"\<close>), or a vector
  (\<^verbatim>\<open>str(rounded)\<close>).
\<close>

datatype message = Str string | Angles real real | Coords vec3

datatype event =
    WaitForFrames pipe
  | Sleep
  | Print message
  | PutText message
  | ImShow
  | WaitKey
  | DestroyAllWindows
  | DetectMarkers
  | EstimatePoseSingleMarkers
  | DrawAxis
  | DrawDetectedMarkers
  | LoggerDebug string
  | LoggerError string
  | LoggingError exn
  | PipeStop pipe

text \<open>
  A method body: from the object state to its result (or the exception that left it), the
  object state at that moment, and the events it produced. Assignments to \<^verbatim>\<open>self\<close> made
  before an exception is raised stay in the state.
\<close>

type_synonym 'a prog = "rs_d_t \<Rightarrow> (stop + 'a) \<times> rs_d_t \<times> event list"

definition return_p :: "'a \<Rightarrow> 'a prog" where
  "return_p a s = (Inr a, s, [])"

definition raise_p :: "stop \<Rightarrow> 'a prog" where
  "raise_p e s = (Inl e, s, [])"

definition emit :: "event \<Rightarrow> unit prog" where
  "emit ev s = (Inr (), s, [ev])"

definition get_p :: "rs_d_t prog" where
  "get_p s = (Inr s, s, [])"

definition modify_p :: "(rs_d_t \<Rightarrow> rs_d_t) \<Rightarrow> unit prog" where
  "modify_p f s = (Inr (), f s, [])"

definition bind_p :: "'a prog \<Rightarrow> ('a \<Rightarrow> 'b prog) \<Rightarrow> 'b prog" where
  "bind_p m f s =
     (case m s of
        (Inl e, s', evs) \<Rightarrow> (Inl e, s', evs)
      | (Inr a, s', evs) \<Rightarrow> (case f a s' of (r, s'', evs') \<Rightarrow> (r, s'', evs @ evs')))"

text \<open>A library call that returns or raises.\<close>

definition lift :: "exn + 'a \<Rightarrow> 'a prog" where
  "lift r = (case r of Inl e \<Rightarrow> raise_p (Exception e) | Inr a \<Rightarrow> return_p a)"

text \<open>\<^verbatim>\<open>try: m  except Exception as e: h e\<close>.\<close>

definition try_except :: "'a prog \<Rightarrow> (exn \<Rightarrow> 'a prog) \<Rightarrow> 'a prog" where
  "try_except m h s =
     (case m s of
        (Inl (Exception e), s', evs) \<Rightarrow> (case h e s' of (r, s'', evs') \<Rightarrow> (r, s'', evs @ evs'))
      | (Inl (SystemExit c), s', evs) \<Rightarrow> (Inl (SystemExit c), s', evs)
      | (Inr a, s', evs) \<Rightarrow> (Inr a, s', evs))"

definition result_of :: "(stop + 'a) \<times> rs_d_t \<times> event list \<Rightarrow> stop + 'a" where
  "result_of r = fst r"

definition state_of :: "(stop + 'a) \<times> rs_d_t \<times> event list \<Rightarrow> rs_d_t" where
  "state_of r = fst (snd r)"

definition events_of :: "(stop + 'a) \<times> rs_d_t \<times> event list \<Rightarrow> event list" where
  "events_of r = snd (snd r)"

subsection \<open>The sensors and the libraries\<close>

text \<open>
  \<^verbatim>\<open>data.translation\<close> and \<^verbatim>\<open>data.rotation\<close> of a pose frame of the tracking camera.
\<close>

record pose_data =
  translation :: vec3
  rotation :: vec4

text \<open>
  What the outside world supplies in one tick: the outcome of the blocking
  \<^verbatim>\<open>pipe_t.wait_for_frames()\<close> (with the pose frame's data), the outcome of the blocking
  \<^verbatim>\<open>pipe_d.wait_for_frames()\<close> (with the colour frame's image), and the key code that
  \<^verbatim>\<open>cv2.waitKey\<close> returns if it is called.
\<close>

record 'img tick_env =
  frame_t :: "exn + pose_data"
  frame_d :: "exn + 'img"
  key :: int

type_synonym corners = "(real \<times> real) list"

text \<open>
  \<^verbatim>\<open>aruco.detectMarkers\<close> returns the corner sets and the ids, \<^verbatim>\<open>ids\<close> being \<^verbatim>\<open>None\<close> when no
  marker is found and an array with one row per marker otherwise.
  \<^verbatim>\<open>aruco.estimatePoseSingleMarkers\<close> returns the arrays \<^verbatim>\<open>rvec\<close> and \<^verbatim>\<open>tvec\<close>, one row per
  marker. \<^verbatim>\<open>np.linalg.inv\<close> raises \<^verbatim>\<open>LinAlgError\<close> on a singular matrix.
\<close>

record 'img cv =
  detectMarkers :: "'img \<Rightarrow> corners list \<times> int list option"
  estimatePoseSingleMarkers :: "corners list \<Rightarrow> vec3 list \<times> vec3 list"
  Rodrigues :: "vec3 \<Rightarrow> mat3"
  linalg_inv :: "mat4 \<Rightarrow> exn + mat4"

text \<open>
  The truth value of \<^verbatim>\<open>ids\<close> in \<^verbatim>\<open>if ids:\<close>. \<^verbatim>\<open>None\<close> is false; an array with one element
  has the truth value of that element; an array with more than one element raises
  \<^verbatim>\<open>ValueError\<close> (the truth value of an array with more than one element is ambiguous).
\<close>

definition ndarray_bool :: "int list option \<Rightarrow> exn + bool" where
  "ndarray_bool ids =
     (case ids of
        None \<Rightarrow> Inr False
      | Some [] \<Rightarrow> Inr False
      | Some [i] \<Rightarrow> Inr (i \<noteq> 0)
      | Some (i # j # _) \<Rightarrow> Inl ValueError)"

text \<open>
  \<^verbatim>\<open>M @ v\<close> where \<^verbatim>\<open>M\<close> may still be \<^verbatim>\<open>None\<close>: numpy rejects the operand with
  \<^verbatim>\<open>ValueError\<close> (not enough dimensions).
\<close>

definition np_matmul_vec :: "mat4 option \<Rightarrow> vec4 \<Rightarrow> exn + vec4" where
  "np_matmul_vec M v = (case M of None \<Rightarrow> Inl ValueError | Some A \<Rightarrow> Inr (matvec4 A v))"

text \<open>\<^verbatim>\<open>round(x, 3)\<close> and \<^verbatim>\<open>np.round(v, decimals=3)\<close>: to the nearest thousandth, ties to even.\<close>

definition round_half_even :: "real \<Rightarrow> int" where
  "round_half_even r =
     (let f = \<lfloor>r\<rfloor>; d = r - of_int f
      in if d < 1 / 2 then f else if 1 / 2 < d then f + 1 else if even f then f else f + 1)"

definition round3 :: "real \<Rightarrow> real" where
  "round3 r = of_int (round_half_even (r * 1000)) / 1000"

definition np_round3 :: "vec3 \<Rightarrow> vec3" where
  "np_round3 v = (case v of (a, b, c) \<Rightarrow> (round3 a, round3 b, round3 c))"

definition wait_for_frames :: "pipe \<Rightarrow> exn + 'a \<Rightarrow> 'a prog" where
  "wait_for_frames p r = bind_p (emit (WaitForFrames p)) (\<lambda>_. lift r)"

definition pose_frame_data :: "pose_data \<Rightarrow> vec4 \<times> vec4" where
  "pose_frame_data data =
     (case translation data of (tx, ty, tz) \<Rightarrow> ((tx, ty, tz, 1), rotation data))"

subsection \<open>FrameComposer: \<^verbatim>\<open>cam2marker\<close>, \<^verbatim>\<open>cam2cam\<close>, \<^verbatim>\<open>get_trans_mat\<close>\<close>

text \<open>
  \<^verbatim>\<open>trans_mat = np.identity(4); trans_mat[:3, :3] = rmat; trans_mat[:3, 3] = tvec\<close>.
\<close>

definition hom_mat :: "mat3 \<Rightarrow> vec3 \<Rightarrow> mat4" where
  "hom_mat rmat tvec =
     (case rmat of ((r00, r01, r02), (r10, r11, r12), (r20, r21, r22)) \<Rightarrow>
      case tvec of (tx, ty, tz) \<Rightarrow>
        ((r00, r01, r02, tx), (r10, r11, r12, ty), (r20, r21, r22, tz), (0, 0, 0, 1)))"

text \<open>
  \<^verbatim>\<open>cam2marker\<close> receives the whole arrays of \<^verbatim>\<open>estimatePoseSingleMarkers\<close>.
  \<^verbatim>\<open>cv2.Rodrigues\<close> accepts a single rotation vector, and the assignment
  \<^verbatim>\<open>trans_mat[:3, 3] = tvec\<close> broadcasts a single translation: with one row each they
  are that marker's vectors, with any other number of rows the call raises.
\<close>

definition cam2marker :: "'img cv \<Rightarrow> vec3 list \<Rightarrow> vec3 list \<Rightarrow> exn + mat4" where
  "cam2marker cv rvec tvec =
     (case rvec of
        [r] \<Rightarrow>
          (case tvec of
             [t] \<Rightarrow> linalg_inv cv (hom_mat (Rodrigues cv r) t)
           | _ \<Rightarrow> Inl ValueError)
      | _ \<Rightarrow> Inl cv2_error)"

definition base_c2c :: mat4 where
  "base_c2c = ((1, 0, 0, 0), (0, - 1, 0, 0), (0, 0, - 1, 0), (0, 0, 0, 1))"

text \<open>
  The other branch: \<^verbatim>\<open>trans_mat = np.zeros((4, 4)); trans_mat[:3, :3] = Rodrigues(t_rvec[:3]);
  trans_mat[3, :] = t_tvec\<close>, inverted and multiplied by the base matrix.
\<close>

definition cam2cam :: "'img cv \<Rightarrow> bool \<Rightarrow> vec4 \<Rightarrow> vec4 \<Rightarrow> exn + mat4" where
  "cam2cam cv use_default t_rvec t_tvec =
     (if use_default then Inr base_c2c
      else
        (case Rodrigues cv (take3 t_rvec) of ((r00, r01, r02), (r10, r11, r12), (r20, r21, r22)) \<Rightarrow>
           (case linalg_inv cv ((r00, r01, r02, 0), (r10, r11, r12, 0), (r20, r21, r22, 0), t_tvec) of
              Inl e \<Rightarrow> Inl e
            | Inr trans_mat \<Rightarrow> Inr (matmul4 trans_mat base_c2c))))"

definition get_trans_mat ::
  "'img cv \<Rightarrow> 'img \<Rightarrow> (mat4 option \<times> vec3 list option \<times> vec3 list option) prog" where
  "get_trans_mat cv img =
     bind_p (emit DetectMarkers) (\<lambda>_.
     case detectMarkers cv img of (corners, ids) \<Rightarrow>
     bind_p (lift (ndarray_bool ids)) (\<lambda>b.
     if b then
       bind_p (emit EstimatePoseSingleMarkers) (\<lambda>_.
       case estimatePoseSingleMarkers cv corners of (rvec, tvec) \<Rightarrow>
       bind_p (lift (cam2marker cv rvec tvec)) (\<lambda>d2m'.
       bind_p get_p (\<lambda>s.
       bind_p (if show_gui s
               then bind_p (emit DrawAxis) (\<lambda>_. emit DrawDetectedMarkers)
               else return_p ()) (\<lambda>_.
       return_p (Some d2m', Some tvec, Some rvec)))))
     else return_p (None, None, None)))"

subsection \<open>CalibrationEngine: \<^verbatim>\<open>calibrate\<close>\<close>

text \<open>\<^verbatim>\<open>A @ B\<close> on two attributes that may still be \<^verbatim>\<open>None\<close>.\<close>

definition np_matmul :: "mat4 option \<Rightarrow> mat4 option \<Rightarrow> exn + mat4" where
  "np_matmul A B =
     (case A of
        None \<Rightarrow> Inl ValueError
      | Some A' \<Rightarrow> (case B of None \<Rightarrow> Inl ValueError | Some B' \<Rightarrow> Inr (matmul4 A' B')))"

text \<open>
  The five statements that both branches of \<^verbatim>\<open>calibrate\<close> run on success
  (lines 113-117 and 130-134).
\<close>

definition store_matrices :: "'img cv \<Rightarrow> mat4 option \<Rightarrow> vec4 \<Rightarrow> vec4 \<Rightarrow> unit prog" where
  "store_matrices cv d2m' t_rvec t_tvec =
     bind_p (modify_p (\<lambda>s. s\<lparr>d2m := d2m'\<rparr>)) (\<lambda>_.
     bind_p get_p (\<lambda>s.
     bind_p (lift (cam2cam cv (use_default_cam2cam s) t_rvec t_tvec)) (\<lambda>t2d'.
     bind_p (modify_p (\<lambda>s. s\<lparr>t2d := Some t2d'\<rparr>)) (\<lambda>_.
     bind_p get_p (\<lambda>s.
     bind_p (lift (np_matmul (d2m s) (t2d s))) (\<lambda>t2m'.
     bind_p (modify_p (\<lambda>s. s\<lparr>t2m := Some t2m'\<rparr>)) (\<lambda>_.
     bind_p (modify_p (\<lambda>s. s\<lparr>calibrated := True\<rparr>)) (\<lambda>_.
     emit (Print (Str ''calibration success: matrices loaded''))))))))))"

text \<open>
  The body of the loop from line 91 on, once \<^verbatim>\<open>img\<close>, \<^verbatim>\<open>t_tvec\<close>, \<^verbatim>\<open>t_rvec\<close> and
  \<^verbatim>\<open>rpy\<close> are known. \<^verbatim>\<open>rpy\<close> is \<^verbatim>\<open>[roll, pitch, yaw]\<close>.
\<close>

definition calibrate_attempt ::
  "'img cv \<Rightarrow> bool \<Rightarrow> 'img \<Rightarrow> vec4 \<Rightarrow> vec4 \<Rightarrow> real list \<Rightarrow> unit prog" where
  "calibrate_attempt cv show_img img t_tvec t_rvec rpy =
     bind_p get_p (\<lambda>s.
     if show_img then
       (let t_flag = (max (rpy ! 0) (rpy ! 2) > calibrate_thres s);
            t_msg = (if t_flag then Angles (round3 (rpy ! 0)) (round3 (rpy ! 2))
                     else Str ''calibration angles are correct'')
        in
        bind_p (get_trans_mat cv img) (\<lambda>(d2m', tvec, rvec).
        let d_flag = (d2m' = None);
            d_msg = (if d_flag then Str ''aruco marker not detected''
                     else Str ''aruco marker detected'')
        in
        bind_p (emit (PutText t_msg)) (\<lambda>_.
        bind_p (emit (PutText d_msg)) (\<lambda>_.
        bind_p (emit ImShow) (\<lambda>_.
        bind_p (emit WaitKey) (\<lambda>_.
        if \<not> (t_flag \<or> d_flag) then store_matrices cv d2m' t_rvec t_tvec
        else return_p ()))))))
     else
       bind_p (emit Sleep) (\<lambda>_.
       if max (rpy ! 0) (rpy ! 2) > calibrate_thres s then
         bind_p (emit (Print (Str ''calibration fails:''))) (\<lambda>_.
         emit (Print (Angles (rpy ! 0) (rpy ! 2))))
       else
         bind_p (get_trans_mat cv img) (\<lambda>(d2m', tvec, rvec).
         if d2m' = None then
           emit (Print (Str (''calibration fails: '' @ [CHR 0x0A] @ ''aruco marker not detected'')))
         else store_matrices cv d2m' t_rvec t_tvec)))"

text \<open>One iteration of \<^verbatim>\<open>while not self.calibrated\<close>.\<close>

definition calibrate_tick :: "'img cv \<Rightarrow> bool \<Rightarrow> 'img tick_env \<Rightarrow> unit prog" where
  "calibrate_tick cv show_img env =
     bind_p (wait_for_frames Pipe_t (frame_t env)) (\<lambda>pose_frame.
     bind_p (wait_for_frames Pipe_d (frame_d env)) (\<lambda>img.
     case pose_frame_data pose_frame of (t_tvec, t_rvec) \<Rightarrow>
     bind_p (lift (rvec_to_rpy t_rvec)) (\<lambda>rpy.
     calibrate_attempt cv show_img img t_tvec t_rvec rpy)))"

text \<open>
  The loop runs on the ticks that the sensors supply. The result \<open>None\<close> says that the loop
  is still running when the supplied ticks are used up; \<open>Some (Inr ())\<close> that the method
  returned; \<open>Some (Inl e)\<close> that \<open>e\<close> left the method (nothing in the method catches it).
\<close>

fun calibrate_loop ::
  "'img cv \<Rightarrow> bool \<Rightarrow> 'img tick_env list \<Rightarrow> rs_d_t \<Rightarrow> (stop + unit) option \<times> rs_d_t \<times> event list" where
  "calibrate_loop cv show_img [] s =
     (if calibrated s then (Some (Inr ()), s, []) else (None, s, []))"
| "calibrate_loop cv show_img (env # envs) s =
     (if calibrated s then (Some (Inr ()), s, [])
      else
        (case calibrate_tick cv show_img env s of
           (Inl e, s', evs) \<Rightarrow> (Some (Inl e), s', evs)
         | (Inr _, s', evs) \<Rightarrow>
             (case calibrate_loop cv show_img envs s' of
                (r, s'', evs') \<Rightarrow> (r, s'', evs @ evs'))))"

definition calibrate ::
  "'img cv \<Rightarrow> bool \<Rightarrow> 'img tick_env list \<Rightarrow> rs_d_t \<Rightarrow> (stop + unit) option \<times> rs_d_t \<times> event list" where
  "calibrate cv show_img envs s =
     (case calibrate_loop cv show_img envs s of
        (r, s', evs) \<Rightarrow> (r, s', LoggerDebug ''Calibration process starts'' # evs))"

subsection \<open>PoseEstimator: \<^verbatim>\<open>poll\<close>, and the small methods\<close>

datatype poll_result = NaN | Loc vec3

text \<open>The block under \<^verbatim>\<open>if self.show_gui:\<close> (lines 176-194).\<close>

definition poll_gui :: "'img cv \<Rightarrow> 'img tick_env \<Rightarrow> 'img \<Rightarrow> unit prog" where
  "poll_gui cv env img =
     bind_p get_p (\<lambda>s.
     bind_p (if detect_mode s then
               bind_p (get_trans_mat cv img) (\<lambda>(c2m, tvec, rvec).
               if tvec \<noteq> None then
                 bind_p (lift (np_matmul_vec c2m (0, 0, 0, 1))) (\<lambda>v.
                 emit (PutText (Coords (np_round3 (take3 v)))))
               else return_p ())
             else return_p ()) (\<lambda>_.
     bind_p get_p (\<lambda>s.
     bind_p (emit (PutText (Coords (np_round3 (location s))))) (\<lambda>_.
     bind_p (emit ImShow) (\<lambda>_.
     bind_p (emit WaitKey) (\<lambda>_.
     let key_ord = key env AND 0xFF in
     if key_ord = of_char (CHR ''q'') \<or> key env = 27 then
       bind_p (emit DestroyAllWindows) (\<lambda>_. raise_p (SystemExit 0))
     else if key_ord = of_char (CHR ''d'') then
       modify_p (\<lambda>s. s\<lparr>detect_mode := \<not> detect_mode s\<rparr>)
     else return_p ()))))))"

text \<open>The block under \<^verbatim>\<open>try:\<close> (lines 164-196).\<close>

definition poll_try :: "'img cv \<Rightarrow> 'img tick_env \<Rightarrow> poll_result prog" where
  "poll_try cv env =
     bind_p (wait_for_frames Pipe_d (frame_d env)) (\<lambda>img.
     bind_p (wait_for_frames Pipe_t (frame_t env)) (\<lambda>pose_frame.
     case pose_frame_data pose_frame of (t_tvec, t_rvec) \<Rightarrow>
     bind_p get_p (\<lambda>s.
     bind_p (lift (np_matmul_vec (t2m s) t_tvec)) (\<lambda>v.
     bind_p (modify_p (\<lambda>s. s\<lparr>location := take3 v\<rparr>)) (\<lambda>_.
     bind_p get_p (\<lambda>s.
     bind_p (if show_gui s then poll_gui cv env img else return_p ()) (\<lambda>_.
     bind_p get_p (\<lambda>s.
     return_p (Loc (location s))))))))))"

definition poll :: "'img cv \<Rightarrow> 'img tick_env \<Rightarrow> poll_result prog" where
  "poll cv env =
     bind_p get_p (\<lambda>s.
     if \<not> calibrated s then
       bind_p (emit (LoggerError ''Camera not calibrated yet'')) (\<lambda>_. return_p NaN)
     else
       try_except (poll_try cv env)
         (\<lambda>e. bind_p (emit (LoggingError e)) (\<lambda>_. return_p NaN)))"

definition get_intrinsics :: "(mat3 \<times> real list) prog" where
  "get_intrinsics = bind_p get_p (\<lambda>s. return_p (rgb_mtx s, rgb_dist s))"

definition stop :: "unit prog" where
  "stop =
     bind_p (emit (PipeStop Pipe_d)) (\<lambda>_.
     bind_p (emit (PipeStop Pipe_t)) (\<lambda>_.
     emit (LoggerDebug ''Shutting Down'')))"

definition start_detect :: "unit prog" where
  "start_detect = modify_p (\<lambda>s. s\<lparr>detect_mode := True\<rparr>)"

definition stop_detect :: "unit prog" where
  "stop_detect = modify_p (\<lambda>s. s\<lparr>detect_mode := False\<rparr>)"

text \<open>
  The public methods of an engine that has been constructed, as calls with their arguments
  and with what the sensors supply while the call runs; \<open>call_state\<close> is the state of the
  object after the call.
\<close>

datatype 'img call =
    Calibrate bool "'img tick_env list"
  | Poll "'img tick_env"
  | GetIntrinsics
  | Stop
  | StartDetect
  | StopDetect

fun call_state :: "'img cv \<Rightarrow> 'img call \<Rightarrow> rs_d_t \<Rightarrow> rs_d_t" where
  "call_state cv (Calibrate show_img envs) s = fst (snd (calibrate cv show_img envs s))"
| "call_state cv (Poll env) s = state_of (poll cv env s)"
| "call_state cv GetIntrinsics s = state_of (get_intrinsics s)"
| "call_state cv Stop s = state_of (stop s)"
| "call_state cv StartDetect s = state_of (start_detect s)"
| "call_state cv StopDetect s = state_of (stop_detect s)"

fun run_calls :: "'img cv \<Rightarrow> 'img call list \<Rightarrow> rs_d_t \<Rightarrow> rs_d_t" where
  "run_calls cv [] s = s"
| "run_calls cv (c # cs) s = run_calls cv cs (call_state cv c s)"

subsection \<open>The tracker server: \<^verbatim>\<open>ViveTrackerServer\<close>\<close>

text \<open>
  A device of the registry \<^verbatim>\<open>triad_openvr.devices\<close>, by what the server asks of it:
  \<^verbatim>\<open>get_pose_euler()\<close>, unpacked as \<^verbatim>\<open>x, y, z, yaw, pitch, roll\<close>, and \<^verbatim>\<open>get_velocity()\<close>,
  unpacked as \<^verbatim>\<open>vel_x, vel_y, vel_z\<close>. Either call may return \<^verbatim>\<open>None\<close> instead of its tuple
  (a device whose pose is not valid), and unpacking \<^verbatim>\<open>None\<close> raises \<^verbatim>\<open>TypeError\<close>.
\<close>

record tracker =
  get_pose_euler :: "(real \<times> real \<times> real \<times> real \<times> real \<times> real) option"
  get_velocity :: "(real \<times> real \<times> real) option"

text \<open>
  The fields that \<^verbatim>\<open>create_tracker_message\<close> gives to \<^verbatim>\<open>ViveTrackerMessage\<close>; the field
  names carry the prefix \<open>msg_\<close>.
\<close>

record ViveTrackerMessage =
  msg_valid :: bool
  msg_x :: real
  msg_y :: real
  msg_z :: real
  msg_yaw :: real
  msg_pitch :: real
  msg_roll :: real
  msg_vel_x :: real
  msg_vel_y :: real
  msg_vel_z :: real
  msg_device_name :: string

text \<open>A JSON document: an object is the list of its members, in order.\<close>

datatype json = JBool bool | JNumber real | JString string | JObject "(string \<times> json) list"

text \<open>
  Modelled from the spec: the class \<^verbatim>\<open>ViveTrackerMessage\<close> of the module \<^verbatim>\<open>models\<close> and its
  method \<^verbatim>\<open>json()\<close>, which are not among the sources. Section 6 of the specification gives
  the document: \<open>{valid, x, y, z, yaw, pitch, roll, vel_x, vel_y, vel_z, device_name}\<close>.
\<close>

definition ViveTrackerMessage_json :: "ViveTrackerMessage \<Rightarrow> json" where
  "ViveTrackerMessage_json data =
     JObject
       [(''valid'', JBool (msg_valid data)),
        (''x'', JNumber (msg_x data)),
        (''y'', JNumber (msg_y data)),
        (''z'', JNumber (msg_z data)),
        (''yaw'', JNumber (msg_yaw data)),
        (''pitch'', JNumber (msg_pitch data)),
        (''roll'', JNumber (msg_roll data)),
        (''vel_x'', JNumber (msg_vel_x data)),
        (''vel_y'', JNumber (msg_vel_y data)),
        (''vel_z'', JNumber (msg_vel_z data)),
        (''device_name'', JString (msg_device_name data))]"

text \<open>
  The library functions of the server. \<open>bytes_decode\<close> is \<^verbatim>\<open>bytes.decode()\<close>, which raises
  on bytes that are not UTF-8; \<open>str_encode\<close> is \<^verbatim>\<open>str.encode()\<close>; \<open>json_dumps\<close> is
  \<^verbatim>\<open>json.dumps(_, sort_keys=False, indent=2)\<close>, which writes a document as text and keeps
  the order of the members.
\<close>

record py =
  bytes_decode :: "string \<Rightarrow> exn + string"
  str_encode :: "string \<Rightarrow> string"
  json_dumps :: "json \<Rightarrow> string"

text \<open>\<^verbatim>\<open>bytes.strip()\<close> removes ASCII whitespace at both ends.\<close>

definition is_space :: "char \<Rightarrow> bool" where
  "is_space c = (c \<in> {CHR '' '', CHR 0x09, CHR 0x0A, CHR 0x0B, CHR 0x0C, CHR 0x0D})"

definition strip :: "string \<Rightarrow> string" where
  "strip bs = rev (dropWhile is_space (rev (dropWhile is_space bs)))"

definition get_tracker :: "(string \<rightharpoonup> tracker) \<Rightarrow> string \<Rightarrow> tracker option" where
  "get_tracker devices tracker_name = devices tracker_name"

text \<open>
  \<^verbatim>\<open>euler = tracker.get_pose_euler()\<close> is only stored; the velocity is unpacked first
  (line 26), the pose after it (line 28).
\<close>

definition create_tracker_message :: "tracker \<Rightarrow> string \<Rightarrow> exn + ViveTrackerMessage" where
  "create_tracker_message tr tracker_name =
     (let euler = get_pose_euler tr in
      case get_velocity tr of
        None \<Rightarrow> Inl TypeError
      | Some (vel_x, vel_y, vel_z) \<Rightarrow>
          (case euler of
             None \<Rightarrow> Inl TypeError
           | Some (x, y, z, yaw, pitch, roll) \<Rightarrow>
               Inr \<lparr>msg_valid = True, msg_x = x, msg_y = y, msg_z = z,
                    msg_yaw = yaw, msg_pitch = pitch, msg_roll = roll,
                    msg_vel_x = vel_x, msg_vel_y = vel_y, msg_vel_z = vel_z,
                    msg_device_name = tracker_name\<rparr>))"

definition ViveTrackerServer_poll ::
  "(string \<rightharpoonup> tracker) \<Rightarrow> string \<Rightarrow> exn + ViveTrackerMessage option" where
  "ViveTrackerServer_poll devices tracker_name =
     (case get_tracker devices tracker_name of
        Some tr \<Rightarrow>
          (case create_tracker_message tr tracker_name of
             Inl e \<Rightarrow> Inl e
           | Inr message \<Rightarrow> Inr (Some message))
      | None \<Rightarrow> Inr None)"

definition construct_json_message :: "py \<Rightarrow> ViveTrackerMessage \<Rightarrow> string" where
  "construct_json_message lib data = json_dumps lib (ViveTrackerMessage_json data) @ '';''"

text \<open>
  \<^verbatim>\<open>handle\<close>: the request is the datagram and the socket. The result is the list of
  \<^verbatim>\<open>socket.sendto\<close> calls made, each with its payload and destination, or the exception
  that left the handler; the only \<^verbatim>\<open>sendto\<close> is the last statement, so a handler that an
  exception leaves has sent nothing. The two \<^verbatim>\<open>print\<close> calls are not part of the model.
\<close>

definition handle ::
  "py \<Rightarrow> (string \<rightharpoonup> tracker) \<Rightarrow> string \<Rightarrow> 'addr \<Rightarrow> exn + (string \<times> 'addr) list" where
  "handle lib devices request0 client_address =
     (case bytes_decode lib (strip request0) of
        Inl e \<Rightarrow> Inl e
      | Inr tracker_name \<Rightarrow>
          (case ViveTrackerServer_poll devices tracker_name of
             Inl e \<Rightarrow> Inl e
           | Inr (Some message) \<Rightarrow>
               Inr [(str_encode lib (construct_json_message lib message), client_address)]
           | Inr None \<Rightarrow> Inr []))"

subsection \<open>What a tick shows of itself\<close>

text \<open>
  A tick reports a rejected attitude by the message with the two angles, printed in the
  command-line mode and drawn on the image in the display mode.
\<close>

fun is_angles :: "event \<Rightarrow> bool" where
  "is_angles (Print (Angles a b)) = True"
| "is_angles (PutText (Angles a b)) = True"
| "is_angles _ = False"

definition attitude_rejected :: "event list \<Rightarrow> bool" where
  "attitude_rejected evs = list_ex is_angles evs"

fun is_read :: "event \<Rightarrow> bool" where
  "is_read (WaitForFrames p) = True"
| "is_read _ = False"

text \<open>The reads of the sensors among the events, in the order in which they happened.\<close>

definition reads_of :: "event list \<Rightarrow> event list" where
  "reads_of evs = filter is_read evs"

subsection \<open>A concrete rig, for evaluation\<close>

text \<open>
  An image is the list of the ids of the markers in it, in the order of detection. Every
  marker is seen unrotated, two units in front of the camera. The inverse is the one of a
  rigid transform: the transposed rotation block, and the translation taken back through it.
\<close>

definition identity3 :: mat3 where
  "identity3 = ((1, 0, 0), (0, 1, 0), (0, 0, 1))"

definition rigid_inv :: "mat4 \<Rightarrow> exn + mat4" where
  "rigid_inv A =
     (case A of ((r00, r01, r02, tx), (r10, r11, r12, ty), (r20, r21, r22, tz), bottom) \<Rightarrow>
        Inr ((r00, r10, r20, - (r00 * tx + r10 * ty + r20 * tz)),
             (r01, r11, r21, - (r01 * tx + r11 * ty + r21 * tz)),
             (r02, r12, r22, - (r02 * tx + r12 * ty + r22 * tz)),
             (0, 0, 0, 1)))"

definition rig_cv :: "int list cv" where
  "rig_cv =
     \<lparr>detectMarkers = (\<lambda>img. (map (\<lambda>i. []) img, if img = [] then None else Some img)),
      estimatePoseSingleMarkers = (\<lambda>cs. (map (\<lambda>c. (0, 0, 0)) cs, map (\<lambda>c. (0, 0, 2)) cs)),
      Rodrigues = (\<lambda>r. identity3),
      linalg_inv = rigid_inv\<rparr>"

text \<open>
  The same rig with the marker seen turned by a quarter turn about the optical axis, one
  unit to the right and two units in front of the camera.
\<close>

definition rig_turned_cv :: "int list cv" where
  "rig_turned_cv =
     \<lparr>detectMarkers = (\<lambda>img. (map (\<lambda>i. []) img, if img = [] then None else Some img)),
      estimatePoseSingleMarkers = (\<lambda>cs. (map (\<lambda>c. (0, 0, pi / 2)) cs, map (\<lambda>c. (1, 0, 2)) cs)),
      Rodrigues = (\<lambda>r. ((0, - 1, 0), (1, 0, 0), (0, 0, 1))),
      linalg_inv = rigid_inv\<rparr>"

text \<open>The camera-to-marker matrix of that rig when one marker is in sight.\<close>

definition rig_d2m :: mat4 where
  "rig_d2m = ((1, 0, 0, 0), (0, 1, 0, 0), (0, 0, 1, - 2), (0, 0, 0, 1))"

text \<open>
  A tick in which both reads succeed: the tracker at \<open>(1, 2, 3)\<close> with rotation \<open>q\<close>, the
  image \<open>img\<close>, and the key code \<open>k\<close>.
\<close>

definition rig_env :: "vec4 \<Rightarrow> int list \<Rightarrow> int \<Rightarrow> int list tick_env" where
  "rig_env q img k =
     \<lparr>frame_t = Inr \<lparr>translation = (1, 2, 3), rotation = q\<rparr>, frame_d = Inr img, key = k\<rparr>"

text \<open>The rig held level, and the rig rolled by a quarter turn to either side.\<close>

definition quat_level :: vec4 where
  "quat_level = (0, 0, 0, 1)"

definition quat_roll_pos :: vec4 where
  "quat_roll_pos = (sqrt 2 / 2, 0, 0, sqrt 2 / 2)"

definition quat_roll_neg :: vec4 where
  "quat_roll_neg = (- (sqrt 2 / 2), 0, 0, sqrt 2 / 2)"

text \<open>A new engine, and the engine after a calibration on that rig.\<close>

definition rig_new :: "bool \<Rightarrow> rs_d_t" where
  "rig_new GUI = init_RS_D_T GUI identity3 []"

definition rig_calibrated :: "bool \<Rightarrow> rs_d_t" where
  "rig_calibrated GUI =
     (rig_new GUI)\<lparr>d2m := Some rig_d2m, t2d := Some base_c2c,
                   t2m := Some (matmul4 rig_d2m base_c2c), calibrated := True\<rparr>"

text \<open>
  A registry with a device that reports its pose and one that has lost tracking, and
  library functions of the server that leave text as it is and write every number as
  \<open>#\<close>.
\<close>

definition rig_tracker :: tracker where
  "rig_tracker = \<lparr>get_pose_euler = Some (1, 2, 3, 10, 20, 30), get_velocity = Some (0, 0, 0)\<rparr>"

definition rig_tracker_lost :: tracker where
  "rig_tracker_lost = \<lparr>get_pose_euler = None, get_velocity = None\<rparr>"

definition rig_devices :: "string \<rightharpoonup> tracker" where
  "rig_devices = [''tracker_1'' \<mapsto> rig_tracker, ''tracker_2'' \<mapsto> rig_tracker_lost]"

definition rig_member :: "string \<times> json \<Rightarrow> string" where
  "rig_member kv =
     fst kv @ '':'' @
     (case snd kv of
        JBool b \<Rightarrow> (if b then ''true'' else ''false'')
      | JNumber r \<Rightarrow> ''#''
      | JString t \<Rightarrow> t
      | JObject fs \<Rightarrow> ''{}'') @ '',''"

definition rig_dumps :: "json \<Rightarrow> string" where
  "rig_dumps j = (case j of JObject fs \<Rightarrow> concat (map rig_member fs) | _ \<Rightarrow> [])"

definition rig_py :: py where
  "rig_py = \<lparr>bytes_decode = Inr, str_encode = (\<lambda>t. t), json_dumps = rig_dumps\<rparr>"

section \<open>Properties\<close>

subsection \<open>Unfolding the method bodies\<close>

lemmas prog_defs = return_p_def raise_p_def emit_def get_p_def modify_p_def bind_p_def lift_def
  try_except_def wait_for_frames_def

lemmas out_defs = result_of_def state_of_def events_of_def

lemma get_trans_mat_eq:
  "get_trans_mat cv img s =
     (case detectMarkers cv img of (corners, ids) \<Rightarrow>
        (case ndarray_bool ids of
           Inl e \<Rightarrow> (Inl (Exception e), s, [DetectMarkers])
         | Inr b \<Rightarrow>
             if b then
               (case estimatePoseSingleMarkers cv corners of (rvec, tvec) \<Rightarrow>
                  (case cam2marker cv rvec tvec of
                     Inl e \<Rightarrow> (Inl (Exception e), s, [DetectMarkers, EstimatePoseSingleMarkers])
                   | Inr M \<Rightarrow>
                       (Inr (Some M, Some tvec, Some rvec), s,
                        [DetectMarkers, EstimatePoseSingleMarkers]
                        @ (if show_gui s then [DrawAxis, DrawDetectedMarkers] else []))))
             else (Inr (None, None, None), s, [DetectMarkers])))"
  by (simp add: get_trans_mat_def prog_defs split: prod.splits sum.splits)

lemma get_trans_mat_state: "fst (snd (get_trans_mat cv img s)) = s"
  by (simp add: get_trans_mat_eq split: prod.splits sum.splits)

lemma get_trans_mat_detects: "DetectMarkers \<in> set (snd (snd (get_trans_mat cv img s)))"
  by (simp add: get_trans_mat_eq split: prod.splits sum.splits)

lemma get_trans_mat_no_angles: "\<not> list_ex is_angles (snd (snd (get_trans_mat cv img s)))"
  by (simp add: get_trans_mat_eq split: prod.splits sum.splits)

lemma get_trans_mat_result_indep:
  "fst (get_trans_mat cv img s) = fst (get_trans_mat cv img s')"
  by (simp add: get_trans_mat_eq split: prod.splits sum.splits)

lemma get_trans_mat_Some:
  assumes "fst (get_trans_mat cv img s) = Inr (Some M, tv, rv)"
  shows "\<exists>r t. estimatePoseSingleMarkers cv (fst (detectMarkers cv img)) = ([r], [t])
            \<and> tv = Some [t] \<and> rv = Some [r]
            \<and> linalg_inv cv (hom_mat (Rodrigues cv r) t) = Inr M"
  using assms
  by (auto simp add: get_trans_mat_eq cam2marker_def split: prod.splits sum.splits if_splits list.splits)

lemma get_trans_mat_tvec:
  assumes "fst (get_trans_mat cv img s) = Inr (c2m, Some t, rv)"
  shows "c2m \<noteq> None"
  using assms
  by (auto simp add: get_trans_mat_eq split: prod.splits sum.splits if_splits)

lemma store_matrices_eq:
  "store_matrices cv d2m' t_rvec t_tvec s =
     (case cam2cam cv (use_default_cam2cam s) t_rvec t_tvec of
        Inl e \<Rightarrow> (Inl (Exception e), s\<lparr>d2m := d2m'\<rparr>, [])
      | Inr T \<Rightarrow>
          (case d2m' of
             None \<Rightarrow> (Inl (Exception ValueError), s\<lparr>d2m := None, t2d := Some T\<rparr>, [])
           | Some M \<Rightarrow>
               (Inr (), s\<lparr>d2m := Some M, t2d := Some T, t2m := Some (matmul4 M T), calibrated := True\<rparr>,
                [Print (Str ''calibration success: matrices loaded'')])))"
  by (simp add: store_matrices_def prog_defs np_matmul_def split: sum.splits option.splits)


lemma calibrate_attempt_cli_reject:
  assumes "max (rpy ! 0) (rpy ! 2) > calibrate_thres s"
  shows "calibrate_attempt cv False img t_tvec t_rvec rpy s =
           (Inr (), s, [Sleep, Print (Str ''calibration fails:''), Print (Angles (rpy ! 0) (rpy ! 2))])"
  using assms by (simp add: calibrate_attempt_def prog_defs)

lemma calibrate_attempt_cli_pass:
  assumes "\<not> max (rpy ! 0) (rpy ! 2) > calibrate_thres s"
  shows "calibrate_attempt cv False img t_tvec t_rvec rpy s =
           (case get_trans_mat cv img s of
              (Inl e, s', evs) \<Rightarrow> (Inl e, s', Sleep # evs)
            | (Inr (d2m', tvec, rvec), s', evs) \<Rightarrow>
                if d2m' = None then
                  (Inr (), s', Sleep # evs @
                     [Print (Str (''calibration fails: '' @ [CHR 0x0A] @ ''aruco marker not detected''))])
                else
                  (case store_matrices cv d2m' t_rvec t_tvec s' of
                     (r, s'', evs') \<Rightarrow> (r, s'', Sleep # evs @ evs')))"
  using assms by (simp add: calibrate_attempt_def prog_defs split: prod.splits sum.splits)

lemma calibrate_attempt_show:
  "calibrate_attempt cv True img t_tvec t_rvec rpy s =
     (case get_trans_mat cv img s of
        (Inl e, s', evs) \<Rightarrow> (Inl e, s', evs)
      | (Inr (d2m', tvec, rvec), s', evs) \<Rightarrow>
          (case (if \<not> (max (rpy ! 0) (rpy ! 2) > calibrate_thres s \<or> d2m' = None)
                 then store_matrices cv d2m' t_rvec t_tvec s' else (Inr (), s', [])) of
             (r, s'', evs') \<Rightarrow>
               (r, s'',
                evs @ [PutText (if max (rpy ! 0) (rpy ! 2) > calibrate_thres s
                                then Angles (round3 (rpy ! 0)) (round3 (rpy ! 2))
                                else Str ''calibration angles are correct''),
                       PutText (if d2m' = None then Str ''aruco marker not detected''
                                else Str ''aruco marker detected''),
                       ImShow, WaitKey] @ evs')))"
  by (simp add: calibrate_attempt_def prog_defs Let_def split: prod.splits sum.splits)

lemma calibrate_tick_eq:
  assumes "frame_t env = Inr pose" and "frame_d env = Inr img"
    and "rvec_to_rpy (rotation pose) = Inr rpy"
  shows "calibrate_tick cv show_img env s =
           (case calibrate_attempt cv show_img img (fst (pose_frame_data pose)) (rotation pose) rpy s of
              (r, s', evs) \<Rightarrow> (r, s', WaitForFrames Pipe_t # WaitForFrames Pipe_d # evs))"
proof -
  obtain a b c where t: "translation pose = (a, b, c)"
    by (cases "translation pose") auto
  obtain r s' evs where
    att: "calibrate_attempt cv show_img img (a, b, c, 1) (rotation pose) rpy s = (r, s', evs)"
    by (cases "calibrate_attempt cv show_img img (a, b, c, 1) (rotation pose) rpy s") auto
  show ?thesis
    using assms t att
    by (cases r) (simp_all add: calibrate_tick_def prog_defs pose_frame_data_def)
qed

lemma store_matrices_events:
  assumes "store_matrices cv d2m' t_rvec t_tvec s = (r, s', evs)"
  shows "filter is_read evs = [] \<and> \<not> list_ex is_angles evs"
  using assms by (auto simp add: store_matrices_eq split: sum.splits option.splits)

lemma get_trans_mat_events:
  assumes "get_trans_mat cv img s = (r, s', evs)"
  shows "filter is_read evs = [] \<and> \<not> list_ex is_angles evs \<and> DetectMarkers \<in> set evs \<and> s' = s"
  using assms by (auto simp add: get_trans_mat_eq split: prod.splits sum.splits if_splits)

lemma calibrate_attempt_no_reads:
  "filter is_read (snd (snd (calibrate_attempt cv show_img img t_tvec t_rvec rpy s))) = []"
proof (cases show_img)
  case True
  then show ?thesis
    by (auto simp add: calibrate_attempt_show split: prod.splits sum.splits if_splits
        dest: get_trans_mat_events store_matrices_events)
next
  case False
  show ?thesis
  proof (cases "max (rpy ! 0) (rpy ! 2) > calibrate_thres s")
    case True
    with False show ?thesis by (simp add: calibrate_attempt_cli_reject)
  next
    case nt: False
    with False show ?thesis
      by (auto simp add: calibrate_attempt_cli_pass split: prod.splits sum.splits if_splits
          dest: get_trans_mat_events store_matrices_events)
  qed
qed

subsection \<open>The angle conversion\<close>

lemma rvec_to_rpy_identity: "rvec_to_rpy (0, 0, 0, 1) = Inr [0, 0, 0]"
  by (simp add: rvec_to_rpy_def m_asin_def m_atan2_def)

lemma unit_quat_bound:
  fixes x y z w :: real
  assumes "x\<^sup>2 + y\<^sup>2 + z\<^sup>2 + w\<^sup>2 = 1"
  shows "\<bar>2 * (x * z - w * y)\<bar> \<le> 1"
proof -
  have a: "0 \<le> (x - z)\<^sup>2 + (w + y)\<^sup>2" by simp
  have b: "0 \<le> (x + z)\<^sup>2 + (w - y)\<^sup>2" by simp
  have "2 * (x * z - w * y) \<le> x\<^sup>2 + y\<^sup>2 + z\<^sup>2 + w\<^sup>2"
    using a by (simp add: power2_eq_square algebra_simps)
  moreover have "- (x\<^sup>2 + y\<^sup>2 + z\<^sup>2 + w\<^sup>2) \<le> 2 * (x * z - w * y)"
    using b by (simp add: power2_eq_square algebra_simps)
  ultimately show ?thesis using assms by simp
qed

text \<open>
  Claim C5, as the code has it. \<^verbatim>\<open>rvec_to_rpy\<close> returns \<^verbatim>\<open>[roll, pitch, yaw]\<close> with
  pitch = -asin(2(xz - wy)) 180/pi, roll = atan2(2(wx + yz), w^2 - x^2 - y^2 + z^2) 180/pi and
  yaw = atan2(2(wz + xy), w^2 + x^2 - y^2 - z^2) 180/pi for every quaternion whose
  \<open>2(xz - wy)\<close> lies in \<open>[-1, 1]\<close>, which every unit quaternion satisfies; for any other
  quaternion \<^verbatim>\<open>math.asin\<close> raises \<^verbatim>\<open>ValueError\<close> and nothing is returned. The identity
  quaternion \<open>(0, 0, 0, 1)\<close> gives \<open>(0, 0, 0)\<close>.
\<close>

theorem rvec_to_rpy_formulas:
  "(\<bar>2 * (x * z - w * y)\<bar> \<le> 1 \<longrightarrow>
      rvec_to_rpy (x, y, z, w) = Inr [spec_roll x y z w, spec_pitch x y z w, spec_yaw x y z w])
   \<and> (\<not> \<bar>2 * (x * z - w * y)\<bar> \<le> 1 \<longrightarrow> rvec_to_rpy (x, y, z, w) = Inl ValueError)
   \<and> (x\<^sup>2 + y\<^sup>2 + z\<^sup>2 + w\<^sup>2 = 1 \<longrightarrow> \<bar>2 * (x * z - w * y)\<bar> \<le> 1)
   \<and> rvec_to_rpy (0, 0, 0, 1) = Inr [0, 0, 0]"
proof (intro conjI impI)
  assume "\<bar>2 * (x * z - w * y)\<bar> \<le> 1"
  then show "rvec_to_rpy (x, y, z, w) = Inr [spec_roll x y z w, spec_pitch x y z w, spec_yaw x y z w]"
    by (simp add: rvec_to_rpy_def m_asin_def spec_roll_def spec_pitch_def spec_yaw_def
        power2_eq_square abs_le_iff)
next
  assume "\<not> \<bar>2 * (x * z - w * y)\<bar> \<le> 1"
  then show "rvec_to_rpy (x, y, z, w) = Inl ValueError"
    by (auto simp add: rvec_to_rpy_def m_asin_def abs_le_iff)
next
  assume "x\<^sup>2 + y\<^sup>2 + z\<^sup>2 + w\<^sup>2 = 1"
  then show "\<bar>2 * (x * z - w * y)\<bar> \<le> 1" by (rule unit_quat_bound)
next
  show "rvec_to_rpy (0, 0, 0, 1) = Inr [0, 0, 0]" by (rule rvec_to_rpy_identity)
qed

theorem rvec_to_rpy_formulas_witness:
  "\<bar>2 * ((0::real) * 0 - 1 * 0)\<bar> \<le> 1 \<and> (0::real)\<^sup>2 + 0\<^sup>2 + 0\<^sup>2 + 1\<^sup>2 = 1
   \<and> rvec_to_rpy (0, 0, 0, 1) = Inr [spec_roll 0 0 0 1, spec_pitch 0 0 0 1, spec_yaw 0 0 0 1]"
  using rvec_to_rpy_formulas [of 0 0 1 0] by simp

text \<open>
  The claim as written, for every quaternion, fails at \<open>(1, 0, 1, 0)\<close>: there
  \<open>2(xz - wy) = 2\<close> and the conversion raises.
\<close>

theorem rvec_to_rpy_counterexample:
  "rvec_to_rpy (1, 0, 1, 0) = Inl ValueError
   \<and> rvec_to_rpy (1, 0, 1, 0) \<noteq> Inr [spec_roll 1 0 1 0, spec_pitch 1 0 1 0, spec_yaw 1 0 1 0]"
  by (simp add: rvec_to_rpy_def m_asin_def)

subsection \<open>The calibration tick\<close>

lemma rig_level_rpy: "rvec_to_rpy quat_level = Inr [0, 0, 0]"
  by (simp add: quat_level_def rvec_to_rpy_identity)

lemma rig_roll_pos_rpy: "rvec_to_rpy quat_roll_pos = Inr [90, 0, 0]"
  by (simp add: quat_roll_pos_def rvec_to_rpy_def m_asin_def m_atan2_def)

lemma rig_roll_neg_rpy: "rvec_to_rpy quat_roll_neg = Inr [- 90, 0, 0]"
  by (simp add: quat_roll_neg_def rvec_to_rpy_def m_asin_def m_atan2_def)

lemma rig_one_marker:
  "i \<noteq> 0 \<Longrightarrow> get_trans_mat rig_cv [i] s =
     (Inr (Some rig_d2m, Some [(0, 0, 2)], Some [(0, 0, 0)]), s,
      [DetectMarkers, EstimatePoseSingleMarkers]
      @ (if show_gui s then [DrawAxis, DrawDetectedMarkers] else []))"
  by (simp add: get_trans_mat_eq rig_cv_def ndarray_bool_def cam2marker_def hom_mat_def
      identity3_def rigid_inv_def rig_d2m_def)

lemma rig_two_markers:
  "get_trans_mat rig_cv [3, 7] s = (Inl (Exception ValueError), s, [DetectMarkers])"
  by (simp add: get_trans_mat_eq rig_cv_def ndarray_bool_def)

lemma calibrate_attempt_stores:
  assumes "\<not> max (rpy ! 0) (rpy ! 2) > calibrate_thres s"
    and "fst (get_trans_mat cv img s) = Inr (Some M, tv, rv)"
    and "use_default_cam2cam s"
  shows "fst (calibrate_attempt cv show_img img t_tvec t_rvec rpy s) = Inr ()
         \<and> fst (snd (calibrate_attempt cv show_img img t_tvec t_rvec rpy s)) =
             s\<lparr>d2m := Some M, t2d := Some base_c2c, t2m := Some (matmul4 M base_c2c),
               calibrated := True\<rparr>"
proof -
  obtain evs where g: "get_trans_mat cv img s = (Inr (Some M, tv, rv), s, evs)"
    using assms(2) get_trans_mat_events [of cv img s]
    by (cases "get_trans_mat cv img s") auto
  show ?thesis
  proof (cases show_img)
    case True
    then show ?thesis
      using assms(1,3) g
      by (simp add: calibrate_attempt_show store_matrices_eq cam2cam_def del: not_None_eq)
  next
    case False
    then show ?thesis
      using assms(1,3) g
      by (simp add: calibrate_attempt_cli_pass store_matrices_eq cam2cam_def del: not_None_eq)
  qed
qed

lemma calibrate_attempt_rejected_state:
  assumes "max (rpy ! 0) (rpy ! 2) > calibrate_thres s"
  shows "fst (snd (calibrate_attempt cv show_img img t_tvec t_rvec rpy s)) = s"
proof (cases show_img)
  case True
  then show ?thesis
    using assms
    by (auto simp add: calibrate_attempt_show split: prod.splits sum.splits
        dest: get_trans_mat_events)
next
  case False
  then show ?thesis using assms by (simp add: calibrate_attempt_cli_reject)
qed

lemma calibrate_attempt_detects:
  assumes "show_img \<or> \<not> max (rpy ! 0) (rpy ! 2) > calibrate_thres s"
  shows "DetectMarkers \<in> set (snd (snd (calibrate_attempt cv show_img img t_tvec t_rvec rpy s)))"
proof (cases show_img)
  case True
  then show ?thesis
    by (auto simp add: calibrate_attempt_show split: prod.splits sum.splits if_splits
        dest: get_trans_mat_events)
next
  case False
  then show ?thesis
    using assms
    by (auto simp add: calibrate_attempt_cli_pass split: prod.splits sum.splits if_splits
        dest: get_trans_mat_events)
qed

lemma calibrate_attempt_cli_rejected_iff:
  "attitude_rejected (snd (snd (calibrate_attempt cv False img t_tvec t_rvec rpy s)))
     \<longleftrightarrow> max (rpy ! 0) (rpy ! 2) > calibrate_thres s"
proof (cases "max (rpy ! 0) (rpy ! 2) > calibrate_thres s")
  case True
  then show ?thesis by (simp add: calibrate_attempt_cli_reject attitude_rejected_def)
next
  case False
  then show ?thesis
    by (auto simp add: calibrate_attempt_cli_pass attitude_rejected_def
        split: prod.splits sum.splits if_splits
        dest: get_trans_mat_events store_matrices_events)
qed

lemma calibrate_attempt_show_rejected_iff:
  assumes "fst (get_trans_mat cv img s) = Inr r"
  shows "attitude_rejected (snd (snd (calibrate_attempt cv True img t_tvec t_rvec rpy s)))
     \<longleftrightarrow> max (rpy ! 0) (rpy ! 2) > calibrate_thres s"
  using assms
  by (auto simp add: calibrate_attempt_show attitude_rejected_def
        split: prod.splits sum.splits if_splits
        dest: get_trans_mat_events store_matrices_events)

lemma calibrate_attempt_pass_not_rejected:
  assumes "\<not> max (rpy ! 0) (rpy ! 2) > calibrate_thres s"
  shows "\<not> attitude_rejected (snd (snd (calibrate_attempt cv show_img img t_tvec t_rvec rpy s)))"
proof (cases show_img)
  case True
  then show ?thesis
    using assms
    by (auto simp add: calibrate_attempt_show attitude_rejected_def
        split: prod.splits sum.splits if_splits
        dest: get_trans_mat_events store_matrices_events)
next
  case False
  then show ?thesis using assms by (simp add: calibrate_attempt_cli_rejected_iff)
qed

lemma tick_result: "fst (case p of (r, s', evs) \<Rightarrow> (r, s', f evs)) = fst p"
  by (cases p) auto

lemma tick_state: "fst (snd (case p of (r, s', evs) \<Rightarrow> (r, s', f evs))) = fst (snd p)"
  by (cases p) auto

lemma tick_events: "snd (snd (case p of (r, s', evs) \<Rightarrow> (r, s', f evs))) = f (snd (snd p))"
  by (cases p) auto


lemma calibrate_tick_parts:
  assumes "frame_t env = Inr pose" and "frame_d env = Inr img"
    and "rvec_to_rpy (rotation pose) = Inr rpy"
  shows "result_of (calibrate_tick cv show_img env s) =
           fst (calibrate_attempt cv show_img img (fst (pose_frame_data pose)) (rotation pose) rpy s)"
    and "state_of (calibrate_tick cv show_img env s) =
           fst (snd (calibrate_attempt cv show_img img (fst (pose_frame_data pose)) (rotation pose) rpy s))"
    and "events_of (calibrate_tick cv show_img env s) =
           WaitForFrames Pipe_t # WaitForFrames Pipe_d #
           snd (snd (calibrate_attempt cv show_img img (fst (pose_frame_data pose)) (rotation pose) rpy s))"
  by (simp_all add: calibrate_tick_eq [OF assms] out_defs tick_result tick_state tick_events)

lemma matmul4_base_c2c:
  "matmul4 ((m00, m01, m02, m03), (m10, m11, m12, m13), (m20, m21, m22, m23), (m30, m31, m32, m33))
       base_c2c =
     ((m00, - m01, - m02, m03), (m10, - m11, - m12, m13),
      (m20, - m21, - m22, m23), (m30, - m31, - m32, m33))"
  by (simp add: matmul4_def transpose4_def matvec4_def dot4_def base_c2c_def)

lemma rig_turned_one_marker:
  "i \<noteq> 0 \<Longrightarrow> get_trans_mat rig_turned_cv [i] s =
     (Inr (Some ((0, 1, 0, 0), (- 1, 0, 0, 1), (0, 0, 1, - 2), (0, 0, 0, 1)),
           Some [(1, 0, 2)], Some [(0, 0, pi / 2)]), s,
      [DetectMarkers, EstimatePoseSingleMarkers]
      @ (if show_gui s then [DrawAxis, DrawDetectedMarkers] else []))"
  by (simp add: get_trans_mat_eq rig_turned_cv_def ndarray_bool_def cam2marker_def hom_mat_def
      rigid_inv_def)

text \<open>
  Claim C1. In a calibration tick in which both reads succeed, the attitude gate passes
  (\<open>max(roll, yaw)\<close> does not exceed the threshold), the marker gate passes
  (\<^verbatim>\<open>get_trans_mat\<close> returns a matrix \<open>M\<close> with entries \<open>m00 ... m33\<close>) and
  \<^verbatim>\<open>use_default_cam2cam\<close> is true, the tick stores \<open>d2m = M\<close>, \<open>t2d = diag(1, -1, -1, 1)\<close> and
  \<open>t2m = M @ diag(1, -1, -1, 1)\<close>, which is \<open>M\<close> with its second and third columns negated,
  and sets \<^verbatim>\<open>calibrated\<close>, in both modes of \<^verbatim>\<open>calibrate\<close>; and \<open>M\<close> is what \<^verbatim>\<open>np.linalg.inv\<close>
  returns on the 4x4 matrix whose upper left 3x3 block is the Rodrigues matrix of the
  detected marker's rotation vector, whose last column is the marker's translation vector
  over 1, and whose last row is \<open>(0, 0, 0, 1)\<close>.
\<close>

theorem calibrate_tick_stores:
  assumes "frame_t env = Inr pose" and "frame_d env = Inr img"
    and "rvec_to_rpy (rotation pose) = Inr rpy"
    and "\<not> max (rpy ! 0) (rpy ! 2) > calibrate_thres s"
    and "result_of (get_trans_mat cv img s) =
           Inr (Some ((m00, m01, m02, m03), (m10, m11, m12, m13),
                      (m20, m21, m22, m23), (m30, m31, m32, m33)), tv, rv)"
    and "use_default_cam2cam s"
  shows "result_of (calibrate_tick cv show_img env s) = Inr ()
         \<and> state_of (calibrate_tick cv show_img env s) =
             s\<lparr>d2m := Some ((m00, m01, m02, m03), (m10, m11, m12, m13),
                            (m20, m21, m22, m23), (m30, m31, m32, m33)),
               t2d := Some ((1, 0, 0, 0), (0, - 1, 0, 0), (0, 0, - 1, 0), (0, 0, 0, 1)),
               t2m := Some ((m00, - m01, - m02, m03), (m10, - m11, - m12, m13),
                            (m20, - m21, - m22, m23), (m30, - m31, - m32, m33)),
               calibrated := True\<rparr>
         \<and> (\<exists>r t. rv = Some [r] \<and> tv = Some [t]
                \<and> estimatePoseSingleMarkers cv (fst (detectMarkers cv img)) = ([r], [t])
                \<and> linalg_inv cv
                     (case Rodrigues cv r of
                        ((r00, r01, r02), (r10, r11, r12), (r20, r21, r22)) \<Rightarrow>
                          (case t of
                             (tx, ty, tz) \<Rightarrow>
                               ((r00, r01, r02, tx), (r10, r11, r12, ty),
                                (r20, r21, r22, tz), (0, 0, 0, 1))))
                   = Inr ((m00, m01, m02, m03), (m10, m11, m12, m13),
                          (m20, m21, m22, m23), (m30, m31, m32, m33)))"
proof -
  let ?M = "((m00, m01, m02, m03), (m10, m11, m12, m13),
             (m20, m21, m22, m23), (m30, m31, m32, m33))"
  have g: "fst (get_trans_mat cv img s) = Inr (Some ?M, tv, rv)"
    using assms(5) by (simp add: result_of_def)
  from get_trans_mat_Some [OF g] obtain r t where
    rt: "rv = Some [r]" "tv = Some [t]"
      "estimatePoseSingleMarkers cv (fst (detectMarkers cv img)) = ([r], [t])"
      "linalg_inv cv (hom_mat (Rodrigues cv r) t) = Inr ?M"
    by blast
  have inv: "\<exists>r t. rv = Some [r] \<and> tv = Some [t]
                \<and> estimatePoseSingleMarkers cv (fst (detectMarkers cv img)) = ([r], [t])
                \<and> linalg_inv cv
                     (case Rodrigues cv r of
                        ((r00, r01, r02), (r10, r11, r12), (r20, r21, r22)) \<Rightarrow>
                          (case t of
                             (tx, ty, tz) \<Rightarrow>
                               ((r00, r01, r02, tx), (r10, r11, r12, ty),
                                (r20, r21, r22, tz), (0, 0, 0, 1))))
                   = Inr ?M"
    using rt unfolding hom_mat_def by blast
  have st: "result_of (calibrate_tick cv show_img env s) = Inr ()
         \<and> state_of (calibrate_tick cv show_img env s) =
             s\<lparr>d2m := Some ?M,
               t2d := Some ((1, 0, 0, 0), (0, - 1, 0, 0), (0, 0, - 1, 0), (0, 0, 0, 1)),
               t2m := Some ((m00, - m01, - m02, m03), (m10, - m11, - m12, m13),
                            (m20, - m21, - m22, m23), (m30, - m31, - m32, m33)),
               calibrated := True\<rparr>"
    using calibrate_attempt_stores [OF assms(4) g assms(6), of show_img]
    by (simp add: calibrate_tick_parts [OF assms(1-3)] matmul4_base_c2c)
      (simp add: base_c2c_def)
  from st inv show ?thesis by (intro conjI) (simp_all only:)
qed

theorem calibrate_tick_stores_witness:
  "frame_t (rig_env quat_level [5] 0) = Inr \<lparr>translation = (1, 2, 3), rotation = quat_level\<rparr>
   \<and> rvec_to_rpy quat_level = Inr [0, 0, 0]
   \<and> \<not> max ([0, 0, 0] ! 0) ([0, 0, 0 :: real] ! 2) > calibrate_thres (rig_new False)
   \<and> result_of (get_trans_mat rig_turned_cv [5] (rig_new False))
       = Inr (Some ((0, 1, 0, 0), (- 1, 0, 0, 1), (0, 0, 1, - 2), (0, 0, 0, 1)),
              Some [(1, 0, 2)], Some [(0, 0, pi / 2)])
   \<and> state_of (calibrate_tick rig_turned_cv False (rig_env quat_level [5] 0) (rig_new False))
       = (rig_new False)
           \<lparr>d2m := Some ((0, 1, 0, 0), (- 1, 0, 0, 1), (0, 0, 1, - 2), (0, 0, 0, 1)),
            t2d := Some ((1, 0, 0, 0), (0, - 1, 0, 0), (0, 0, - 1, 0), (0, 0, 0, 1)),
            t2m := Some ((0, - 1, 0, 0), (- 1, 0, 0, 1), (0, 0, - 1, - 2), (0, 0, 0, 1)),
            calibrated := True\<rparr>"
  using calibrate_tick_stores [where env = "rig_env quat_level [5] 0"
      and pose = "\<lparr>translation = (1, 2, 3), rotation = quat_level\<rparr>" and img = "[5]"
      and rpy = "[0, 0, 0]" and s = "rig_new False" and cv = rig_turned_cv
      and ?m00.0 = 0 and ?m01.0 = 1 and ?m02.0 = 0 and ?m03.0 = 0
      and ?m10.0 = "- 1" and ?m11.0 = 0 and ?m12.0 = 0 and ?m13.0 = 1
      and ?m20.0 = 0 and ?m21.0 = 0 and ?m22.0 = 1 and ?m23.0 = "- 2"
      and ?m30.0 = 0 and ?m31.0 = 0 and ?m32.0 = 0 and ?m33.0 = 1
      and tv = "Some [(1, 0, 2)]" and rv = "Some [(0, 0, pi / 2)]" and show_img = False]
  by (simp add: rig_env_def rig_level_rpy rig_turned_one_marker result_of_def rig_new_def
      init_RS_D_T_def)

text \<open>
  Claim C2. In a calibration tick the attitude gate fails exactly when \<open>max(roll, yaw)\<close>,
  computed from the tracker quaternion, exceeds \<^verbatim>\<open>calibrate_thres\<close>: then nothing is stored;
  the command-line mode prints the angle message exactly then, the display mode draws it
  exactly then (when the marker detection returns); and with the marker gate passing, the
  tick calibrates exactly when the maximum does not exceed the threshold. With threshold
  1, roll 0.5 and yaw 0.5 pass, and roll 1.5 with yaw 0 fails.
\<close>

theorem attitude_gate:
  assumes "frame_t env = Inr pose" and "frame_d env = Inr img"
    and "rvec_to_rpy (rotation pose) = Inr [roll, pitch, yaw]"
  shows "(max roll yaw > calibrate_thres s \<longrightarrow> state_of (calibrate_tick cv show_img env s) = s)
     \<and> (attitude_rejected (events_of (calibrate_tick cv False env s))
          \<longleftrightarrow> max roll yaw > calibrate_thres s)
     \<and> ((\<exists>r. result_of (get_trans_mat cv img s) = Inr r) \<longrightarrow>
          (attitude_rejected (events_of (calibrate_tick cv True env s))
             \<longleftrightarrow> max roll yaw > calibrate_thres s))
     \<and> (\<not> calibrated s \<and> use_default_cam2cam s
          \<and> (\<exists>M tv rv. result_of (get_trans_mat cv img s) = Inr (Some M, tv, rv)) \<longrightarrow>
          (calibrated (state_of (calibrate_tick cv show_img env s))
             \<longleftrightarrow> \<not> max roll yaw > calibrate_thres s))
     \<and> (calibrate_thres s = 1 \<longrightarrow>
          \<not> attitude_rejected
               (events_of (calibrate_attempt cv show_img img t_tvec t_rvec [0.5, pitch, 0.5] s))
          \<and> attitude_rejected
               (events_of (calibrate_attempt cv False img t_tvec t_rvec [1.5, pitch, 0] s))
          \<and> state_of (calibrate_attempt cv show_img img t_tvec t_rvec [1.5, pitch, 0] s) = s)"
proof (intro conjI impI)
  note parts = calibrate_tick_parts [OF assms]
  show "state_of (calibrate_tick cv show_img env s) = s" if "max roll yaw > calibrate_thres s"
    using that by (simp add: parts calibrate_attempt_rejected_state)
  show "attitude_rejected (events_of (calibrate_tick cv False env s))
          \<longleftrightarrow> max roll yaw > calibrate_thres s"
    by (simp add: parts attitude_rejected_def
        calibrate_attempt_cli_rejected_iff [unfolded attitude_rejected_def])
  show "attitude_rejected (events_of (calibrate_tick cv True env s))
          \<longleftrightarrow> max roll yaw > calibrate_thres s"
    if "\<exists>r. result_of (get_trans_mat cv img s) = Inr r"
  proof -
    from that obtain r where "fst (get_trans_mat cv img s) = Inr r"
      by (auto simp add: result_of_def)
    from calibrate_attempt_show_rejected_iff [OF this, of _ _ "[roll, pitch, yaw]"]
    show ?thesis by (simp add: parts attitude_rejected_def)
  qed
  show "calibrated (state_of (calibrate_tick cv show_img env s))
          \<longleftrightarrow> \<not> max roll yaw > calibrate_thres s"
    if h: "\<not> calibrated s \<and> use_default_cam2cam s
          \<and> (\<exists>M tv rv. result_of (get_trans_mat cv img s) = Inr (Some M, tv, rv))"
  proof (cases "max roll yaw > calibrate_thres s")
    case True
    then show ?thesis
      using h by (simp add: parts calibrate_attempt_rejected_state)
  next
    case False
    from h obtain M tv rv where g: "fst (get_trans_mat cv img s) = Inr (Some M, tv, rv)"
      by (auto simp add: result_of_def)
    have "\<not> max ([roll, pitch, yaw] ! 0) ([roll, pitch, yaw] ! 2) > calibrate_thres s"
      using False by simp
    from calibrate_attempt_stores [OF this g] h False
    show ?thesis by (simp add: parts)
  qed
  show "\<not> attitude_rejected
             (events_of (calibrate_attempt cv show_img img t_tvec t_rvec [0.5, pitch, 0.5] s))"
    if "calibrate_thres s = 1"
    using that by (simp add: events_of_def calibrate_attempt_pass_not_rejected)
  show "attitude_rejected
          (events_of (calibrate_attempt cv False img t_tvec t_rvec [1.5, pitch, 0] s))"
    if "calibrate_thres s = 1"
    using that by (simp add: events_of_def calibrate_attempt_cli_rejected_iff)
  show "state_of (calibrate_attempt cv show_img img t_tvec t_rvec [1.5, pitch, 0] s) = s"
    if "calibrate_thres s = 1"
    using that by (simp add: state_of_def calibrate_attempt_rejected_state)
qed


theorem attitude_gate_witness:
  "frame_t (rig_env quat_roll_pos [5] 0) = Inr \<lparr>translation = (1, 2, 3), rotation = quat_roll_pos\<rparr>
   \<and> rvec_to_rpy quat_roll_pos = Inr [90, 0, 0]
   \<and> max 90 0 > calibrate_thres (rig_new False)
   \<and> state_of (calibrate_tick rig_cv False (rig_env quat_roll_pos [5] 0) (rig_new False)) = rig_new False
   \<and> attitude_rejected (events_of (calibrate_tick rig_cv False (rig_env quat_roll_pos [5] 0) (rig_new False)))"
  using attitude_gate [where env = "rig_env quat_roll_pos [5] 0"
      and pose = "\<lparr>translation = (1, 2, 3), rotation = quat_roll_pos\<rparr>" and img = "[5]"
      and roll = 90 and pitch = 0 and yaw = 0 and s = "rig_new False" and cv = rig_cv
      and show_img = False]
  by (simp add: rig_env_def rig_roll_pos_rpy rig_new_def init_RS_D_T_def)

text \<open>
  Claim C9. The gate compares the signed angles. Whenever roll and yaw are each at most
  the threshold, however negative, the tick goes on to marker detection, reports no
  attitude failure, and calibrates if the marker gate passes; a tick is reported as
  rejected only if roll or yaw is above the threshold. With threshold 1, roll -30 passes.
\<close>

theorem attitude_gate_signed:
  assumes "frame_t env = Inr pose" and "frame_d env = Inr img"
    and "rvec_to_rpy (rotation pose) = Inr [roll, pitch, yaw]"
  shows "(roll \<le> calibrate_thres s \<and> yaw \<le> calibrate_thres s \<longrightarrow>
            DetectMarkers \<in> set (events_of (calibrate_tick cv show_img env s))
            \<and> \<not> attitude_rejected (events_of (calibrate_tick cv show_img env s)))
     \<and> (attitude_rejected (events_of (calibrate_tick cv show_img env s)) \<longrightarrow>
            calibrate_thres s < roll \<or> calibrate_thres s < yaw)
     \<and> (roll \<le> calibrate_thres s \<and> yaw \<le> calibrate_thres s \<and> use_default_cam2cam s
          \<and> (\<exists>M tv rv. result_of (get_trans_mat cv img s) = Inr (Some M, tv, rv)) \<longrightarrow>
            calibrated (state_of (calibrate_tick cv show_img env s)))
     \<and> (calibrate_thres s = 1 \<longrightarrow>
            DetectMarkers \<in> set
              (events_of (calibrate_attempt cv show_img img t_tvec t_rvec [- 30, pitch, 0] s))
            \<and> \<not> attitude_rejected
              (events_of (calibrate_attempt cv show_img img t_tvec t_rvec [- 30, pitch, 0] s)))"
proof (intro conjI impI)
  note parts = calibrate_tick_parts [OF assms]
  show "DetectMarkers \<in> set (events_of (calibrate_tick cv show_img env s))"
    if "roll \<le> calibrate_thres s \<and> yaw \<le> calibrate_thres s"
  proof -
    have "\<not> max ([roll, pitch, yaw] ! 0) ([roll, pitch, yaw] ! 2) > calibrate_thres s"
      using that by (simp add: not_less)
    from calibrate_attempt_detects [OF disjI2, OF this]
    show ?thesis by (simp add: parts)
  qed
  show "\<not> attitude_rejected (events_of (calibrate_tick cv show_img env s))"
    if "roll \<le> calibrate_thres s \<and> yaw \<le> calibrate_thres s"
  proof -
    have "\<not> max ([roll, pitch, yaw] ! 0) ([roll, pitch, yaw] ! 2) > calibrate_thres s"
      using that by (simp add: not_less)
    from calibrate_attempt_pass_not_rejected [OF this]
    show ?thesis by (simp add: parts attitude_rejected_def)
  qed
  show "calibrate_thres s < roll \<or> calibrate_thres s < yaw"
    if r: "attitude_rejected (events_of (calibrate_tick cv show_img env s))"
  proof (rule ccontr)
    assume "\<not> (calibrate_thres s < roll \<or> calibrate_thres s < yaw)"
    then have "\<not> max ([roll, pitch, yaw] ! 0) ([roll, pitch, yaw] ! 2) > calibrate_thres s"
      by (simp add: less_max_iff_disj)
    from calibrate_attempt_pass_not_rejected [OF this, of cv show_img img] r
    show False by (simp add: parts attitude_rejected_def)
  qed
  show "calibrated (state_of (calibrate_tick cv show_img env s))"
    if h: "roll \<le> calibrate_thres s \<and> yaw \<le> calibrate_thres s \<and> use_default_cam2cam s
          \<and> (\<exists>M tv rv. result_of (get_trans_mat cv img s) = Inr (Some M, tv, rv))"
  proof -
    from h obtain M tv rv where g: "fst (get_trans_mat cv img s) = Inr (Some M, tv, rv)"
      by (auto simp add: result_of_def)
    have "\<not> max ([roll, pitch, yaw] ! 0) ([roll, pitch, yaw] ! 2) > calibrate_thres s"
      using h by (simp add: not_less)
    from calibrate_attempt_stores [OF this g] h
    show ?thesis by (simp add: parts)
  qed
  show "DetectMarkers \<in> set
          (events_of (calibrate_attempt cv show_img img t_tvec t_rvec [- 30, pitch, 0] s))"
    if "calibrate_thres s = 1"
  proof -
    have "\<not> max ([- 30, pitch, 0] ! 0) ([- 30, pitch, 0] ! 2) > calibrate_thres s"
      using that by simp
    from calibrate_attempt_detects [OF disjI2, OF this]
    show ?thesis by (simp add: events_of_def)
  qed
  show "\<not> attitude_rejected
          (events_of (calibrate_attempt cv show_img img t_tvec t_rvec [- 30, pitch, 0] s))"
    if "calibrate_thres s = 1"
    using that by (simp add: events_of_def calibrate_attempt_pass_not_rejected)
qed

theorem attitude_gate_signed_witness:
  "frame_t (rig_env quat_roll_neg [5] 0) = Inr \<lparr>translation = (1, 2, 3), rotation = quat_roll_neg\<rparr>
   \<and> rvec_to_rpy quat_roll_neg = Inr [- 90, 0, 0]
   \<and> - 90 \<le> calibrate_thres (rig_new False) \<and> 0 \<le> calibrate_thres (rig_new False)
   \<and> DetectMarkers \<in> set (events_of (calibrate_tick rig_cv False (rig_env quat_roll_neg [5] 0) (rig_new False)))
   \<and> calibrated (state_of (calibrate_tick rig_cv False (rig_env quat_roll_neg [5] 0) (rig_new False)))"
  using attitude_gate_signed [where env = "rig_env quat_roll_neg [5] 0"
      and pose = "\<lparr>translation = (1, 2, 3), rotation = quat_roll_neg\<rparr>" and img = "[5]"
      and roll = "- 90" and pitch = 0 and yaw = 0 and s = "rig_new False" and cv = rig_cv
      and show_img = False]
  by (simp add: rig_env_def rig_roll_neg_rpy rig_new_def init_RS_D_T_def rig_one_marker
      result_of_def rig_d2m_def)

lemma calibrate_attempt_show_draws:
  assumes "max (rpy ! 0) (rpy ! 2) > calibrate_thres s"
    and "fst (get_trans_mat cv img s) = Inr r"
  shows "PutText (Angles (round3 (rpy ! 0)) (round3 (rpy ! 2)))
           \<in> set (snd (snd (calibrate_attempt cv True img t_tvec t_rvec rpy s)))"
  using assms
  by (auto simp add: calibrate_attempt_show split: prod.splits sum.splits)

text \<open>
  Claim C6, as the code has it. In the command-line mode (\<^verbatim>\<open>show_img\<close> false) a tick whose
  attitude gate fails reads the two sensors, sleeps, prints the failure and the two angle
  values and does nothing else: the marker detector is not called, the state is unchanged
  and the loop goes on with the next tick. In the display mode (\<^verbatim>\<open>show_img\<close> true) the
  marker detector is called in every tick that reaches the gate (both reads and the angle
  conversion succeed), whatever the gate says; when the gate fails the tick stores nothing
  and, when the marker processing returns, draws the two angle values, rounded to three
  decimals, on the image. When the marker processing raises, nothing is drawn and the
  exception leaves the tick.
\<close>

theorem attitude_reject_skips_detection:
  assumes "frame_t env = Inr pose" and "frame_d env = Inr img"
    and "rvec_to_rpy (rotation pose) = Inr [roll, pitch, yaw]"
  shows "(max roll yaw > calibrate_thres s \<longrightarrow>
            calibrate_tick cv False env s =
              (Inr (), s, [WaitForFrames Pipe_t, WaitForFrames Pipe_d, Sleep,
                           Print (Str ''calibration fails:''), Print (Angles roll yaw)])
            \<and> DetectMarkers \<notin> set (events_of (calibrate_tick cv False env s))
            \<and> (\<not> calibrated s \<longrightarrow>
                 calibrate_loop cv False (env # envs) s =
                   (case calibrate_loop cv False envs s of
                      (r, s', evs) \<Rightarrow>
                        (r, s', [WaitForFrames Pipe_t, WaitForFrames Pipe_d, Sleep,
                                 Print (Str ''calibration fails:''),
                                 Print (Angles roll yaw)] @ evs))))
     \<and> DetectMarkers \<in> set (events_of (calibrate_tick cv True env s))
     \<and> (max roll yaw > calibrate_thres s \<longrightarrow> state_of (calibrate_tick cv True env s) = s)
     \<and> (max roll yaw > calibrate_thres s \<and> (\<exists>r. result_of (get_trans_mat cv img s) = Inr r) \<longrightarrow>
          PutText (Angles (round3 roll) (round3 yaw))
            \<in> set (events_of (calibrate_tick cv True env s)))
     \<and> (result_of (get_trans_mat cv img s) = Inl e \<longrightarrow>
          result_of (calibrate_tick cv True env s) = Inl e
          \<and> events_of (calibrate_tick cv True env s) =
              WaitForFrames Pipe_t # WaitForFrames Pipe_d # events_of (get_trans_mat cv img s)
          \<and> \<not> attitude_rejected (events_of (calibrate_tick cv True env s)))"
proof (intro conjI impI)
  note parts = calibrate_tick_parts [OF assms(1-3)]
  show "DetectMarkers \<in> set (events_of (calibrate_tick cv True env s))"
    using calibrate_attempt_detects [OF disjI1, of True] by (simp add: parts)
  show "state_of (calibrate_tick cv True env s) = s" if "max roll yaw > calibrate_thres s"
    using that by (simp add: parts calibrate_attempt_rejected_state)
  show "PutText (Angles (round3 roll) (round3 yaw)) \<in> set (events_of (calibrate_tick cv True env s))"
    if h: "max roll yaw > calibrate_thres s \<and> (\<exists>r. result_of (get_trans_mat cv img s) = Inr r)"
  proof -
    from h obtain r where g: "fst (get_trans_mat cv img s) = Inr r"
      by (auto simp add: result_of_def)
    have m: "max ([roll, pitch, yaw] ! 0) ([roll, pitch, yaw] ! 2) > calibrate_thres s"
      using h by simp
    from calibrate_attempt_show_draws [OF m g]
    show ?thesis by (simp add: parts)
  qed
  {
    assume f: "max roll yaw > calibrate_thres s"
    show tick: "calibrate_tick cv False env s =
             (Inr (), s, [WaitForFrames Pipe_t, WaitForFrames Pipe_d, Sleep,
                          Print (Str ''calibration fails:''), Print (Angles roll yaw)])"
      using f by (simp add: calibrate_tick_eq [OF assms(1-3)] calibrate_attempt_cli_reject)
    show "DetectMarkers \<notin> set (events_of (calibrate_tick cv False env s))"
      by (simp add: tick events_of_def)
    show "calibrate_loop cv False (env # envs) s =
            (case calibrate_loop cv False envs s of
               (r, s', evs) \<Rightarrow>
                 (r, s', [WaitForFrames Pipe_t, WaitForFrames Pipe_d, Sleep,
                          Print (Str ''calibration fails:''), Print (Angles roll yaw)] @ evs))"
      if "\<not> calibrated s"
      using that by (simp add: tick)
  }
  {
    assume "result_of (get_trans_mat cv img s) = Inl e"
    then have g: "fst (get_trans_mat cv img s) = Inl e" by (simp add: result_of_def)
    obtain s' evs where gm: "get_trans_mat cv img s = (Inl e, s', evs)"
      using g by (cases "get_trans_mat cv img s") auto
    have att: "calibrate_attempt cv True img t_tvec t_rvec [roll, pitch, yaw] s = (Inl e, s', evs)"
      for t_tvec t_rvec
      using gm by (simp add: calibrate_attempt_show)
    show "result_of (calibrate_tick cv True env s) = Inl e"
      by (simp add: parts att)
    show "events_of (calibrate_tick cv True env s) =
            WaitForFrames Pipe_t # WaitForFrames Pipe_d # events_of (get_trans_mat cv img s)"
      by (simp add: parts att) (simp add: events_of_def gm)
    show "\<not> attitude_rejected (events_of (calibrate_tick cv True env s))"
      using get_trans_mat_events [OF gm]
      by (simp add: parts att attitude_rejected_def)
  }
qed

theorem attitude_reject_skips_detection_witness:
  "frame_t (rig_env quat_roll_pos [5] 0) = Inr \<lparr>translation = (1, 2, 3), rotation = quat_roll_pos\<rparr>
   \<and> rvec_to_rpy quat_roll_pos = Inr [90, 0, 0]
   \<and> max 90 0 > calibrate_thres (rig_new False)
   \<and> result_of (get_trans_mat rig_cv [5] (rig_new False))
       = Inr (Some rig_d2m, Some [(0, 0, 2)], Some [(0, 0, 0)])
   \<and> calibrate_tick rig_cv False (rig_env quat_roll_pos [5] 0) (rig_new False) =
       (Inr (), rig_new False, [WaitForFrames Pipe_t, WaitForFrames Pipe_d, Sleep,
                                Print (Str ''calibration fails:''), Print (Angles 90 0)])
   \<and> PutText (Angles (round3 90) (round3 0))
       \<in> set (events_of (calibrate_tick rig_cv True (rig_env quat_roll_pos [5] 0) (rig_new False)))
   \<and> result_of (get_trans_mat rig_cv [3, 7] (rig_new False)) = Inl (Exception ValueError)
   \<and> \<not> attitude_rejected
         (events_of (calibrate_tick rig_cv True (rig_env quat_roll_pos [3, 7] 0) (rig_new False)))"
  using attitude_reject_skips_detection [where env = "rig_env quat_roll_pos [5] 0"
      and pose = "\<lparr>translation = (1, 2, 3), rotation = quat_roll_pos\<rparr>" and img = "[5]"
      and roll = 90 and pitch = 0 and yaw = 0 and s = "rig_new False" and cv = rig_cv
      and envs = "[]" and e = "Exception ValueError"]
    attitude_reject_skips_detection [where env = "rig_env quat_roll_pos [3, 7] 0"
      and pose = "\<lparr>translation = (1, 2, 3), rotation = quat_roll_pos\<rparr>" and img = "[3, 7]"
      and roll = 90 and pitch = 0 and yaw = 0 and s = "rig_new False" and cv = rig_cv
      and envs = "[]" and e = "Exception ValueError"]
  by (simp add: rig_env_def rig_roll_pos_rpy rig_new_def init_RS_D_T_def rig_one_marker
      rig_two_markers result_of_def events_of_def attitude_rejected_def)

text \<open>
  The claim as written, for every calibration tick, fails in the display mode: with the
  rig rolled by a quarter turn the gate fails and the detector runs.
\<close>

theorem display_mode_detects_counterexample:
  "rvec_to_rpy quat_roll_pos = Inr [90, 0, 0]
   \<and> max 90 0 > calibrate_thres (rig_new True)
   \<and> DetectMarkers \<in> set (events_of (calibrate_tick rig_cv True (rig_env quat_roll_pos [5] 0) (rig_new True)))
   \<and> events_of (calibrate_tick rig_cv True (rig_env quat_roll_pos [5] 0) (rig_new True)) =
       [WaitForFrames Pipe_t, WaitForFrames Pipe_d, DetectMarkers, EstimatePoseSingleMarkers,
        DrawAxis, DrawDetectedMarkers, PutText (Angles 90 0),
        PutText (Str ''aruco marker detected''), ImShow, WaitKey]"
proof -
  have f: "frame_t (rig_env quat_roll_pos [5] 0) = Inr \<lparr>translation = (1, 2, 3), rotation = quat_roll_pos\<rparr>"
    and d: "frame_d (rig_env quat_roll_pos [5] 0) = Inr [5]"
    by (simp_all add: rig_env_def)
  have r: "rvec_to_rpy (rotation \<lparr>translation = (1, 2, 3), rotation = quat_roll_pos\<rparr>) = Inr [90, 0, 0]"
    by (simp add: rig_roll_pos_rpy)
  have r3: "round3 90 = 90" "round3 0 = 0"
    by (simp_all add: round3_def round_half_even_def)
  show ?thesis
    by (simp add: calibrate_tick_parts [OF f d r] calibrate_attempt_show rig_one_marker
        rig_roll_pos_rpy rig_new_def init_RS_D_T_def r3 del: not_None_eq)
qed

subsection \<open>The steady state: \<^verbatim>\<open>poll\<close>\<close>

lemma poll_gui_eq:
  "poll_gui cv env img s =
     (case (if detect_mode s then
              (case get_trans_mat cv img s of
                 (Inl e, s', evs) \<Rightarrow> (Inl e, s', evs)
               | (Inr (c2m, tvec, rvec), s', evs) \<Rightarrow>
                   if tvec \<noteq> None then
                     (case np_matmul_vec c2m (0, 0, 0, 1) of
                        Inl e \<Rightarrow> (Inl (Exception e), s', evs)
                      | Inr v \<Rightarrow> (Inr (), s', evs @ [PutText (Coords (np_round3 (take3 v)))]))
                   else (Inr (), s', evs))
            else (Inr (), s, [])) of
        (Inl e, s', evs) \<Rightarrow> (Inl e, s', evs)
      | (Inr u, s', evs) \<Rightarrow>
          if key env AND 0xFF = 113 \<or> key env = 27 then
            (Inl (SystemExit 0), s',
             evs @ [PutText (Coords (np_round3 (location s'))), ImShow, WaitKey, DestroyAllWindows])
          else if key env AND 0xFF = 100 then
            (Inr (), s'\<lparr>detect_mode := \<not> detect_mode s'\<rparr>,
             evs @ [PutText (Coords (np_round3 (location s'))), ImShow, WaitKey])
          else
            (Inr (), s', evs @ [PutText (Coords (np_round3 (location s'))), ImShow, WaitKey]))"
  by (simp add: poll_gui_def prog_defs Let_def split: prod.splits sum.splits del: not_None_eq)


lemma get_trans_mat_no_exit: "fst (get_trans_mat cv img s) \<noteq> Inl (SystemExit c)"
  by (simp add: get_trans_mat_eq split: prod.splits sum.splits)

lemma poll_gui_state: "\<exists>b. fst (snd (poll_gui cv env img s)) = s\<lparr>detect_mode := b\<rparr>"
proof -
  have keep: "s = s\<lparr>detect_mode := detect_mode s\<rparr>" by simp
  show ?thesis
    by (auto simp add: poll_gui_eq split: prod.splits sum.splits if_splits
        dest!: get_trans_mat_events intro: exI [of _ "detect_mode s"])
qed

lemma poll_gui_no_reads: "filter is_read (snd (snd (poll_gui cv env img s))) = []"
  by (auto simp add: poll_gui_eq split: prod.splits sum.splits if_splits
      dest!: get_trans_mat_events)

lemma poll_gui_result_ok:
  assumes "detect_mode s \<Longrightarrow> \<exists>x. fst (get_trans_mat cv img s) = Inr x"
  shows "fst (poll_gui cv env img s) =
           (if key env AND 0xFF = 113 \<or> key env = 27 then Inl (SystemExit 0) else Inr ())"
proof (cases "detect_mode s")
  case False
  then show ?thesis by (simp add: poll_gui_eq)
next
  case True
  with assms obtain c2m tvec rvec where g: "fst (get_trans_mat cv img s) = Inr (c2m, tvec, rvec)"
    by (metis prod_cases3)
  then obtain evs where g': "get_trans_mat cv img s = (Inr (c2m, tvec, rvec), s, evs)"
    using get_trans_mat_events [of cv img s] by (cases "get_trans_mat cv img s") auto
  have "c2m \<noteq> None" if "tvec \<noteq> None"
    using that g get_trans_mat_tvec [of cv img s c2m _ rvec] by auto
  then show ?thesis
    using True g'
    by (cases c2m; cases tvec) (simp_all add: poll_gui_eq np_matmul_vec_def del: not_None_eq)
qed

lemma poll_gui_result_fail:
  assumes "detect_mode s" and "fst (get_trans_mat cv img s) = Inl e"
  shows "fst (poll_gui cv env img s) = Inl e"
  using assms by (cases "get_trans_mat cv img s") (simp add: poll_gui_eq)

lemma poll_try_read_d_fails:
  assumes "frame_d env = Inl e"
  shows "poll_try cv env s = (Inl (Exception e), s, [WaitForFrames Pipe_d])"
  using assms by (simp add: poll_try_def prog_defs)

lemma poll_try_read_t_fails:
  assumes "frame_d env = Inr img" and "frame_t env = Inl e"
  shows "poll_try cv env s = (Inl (Exception e), s, [WaitForFrames Pipe_d, WaitForFrames Pipe_t])"
  using assms by (simp add: poll_try_def prog_defs)

lemma poll_try_eq:
  assumes "frame_d env = Inr img" and "frame_t env = Inr pose" and "translation pose = (x, y, z)"
  shows "poll_try cv env s =
     (case t2m s of
        None \<Rightarrow> (Inl (Exception ValueError), s, [WaitForFrames Pipe_d, WaitForFrames Pipe_t])
      | Some M \<Rightarrow>
          if show_gui s then
            (case poll_gui cv env img (s\<lparr>location := take3 (matvec4 M (x, y, z, 1))\<rparr>) of
               (Inl e, s', evs) \<Rightarrow> (Inl e, s', WaitForFrames Pipe_d # WaitForFrames Pipe_t # evs)
             | (Inr u, s', evs) \<Rightarrow>
                 (Inr (Loc (location s')), s', WaitForFrames Pipe_d # WaitForFrames Pipe_t # evs))
          else
            (Inr (Loc (take3 (matvec4 M (x, y, z, 1)))),
             s\<lparr>location := take3 (matvec4 M (x, y, z, 1))\<rparr>,
             [WaitForFrames Pipe_d, WaitForFrames Pipe_t]))"
  using assms
  by (simp add: poll_try_def prog_defs pose_frame_data_def np_matmul_vec_def
      split: option.splits prod.splits sum.splits)

lemma poll_eq:
  "poll cv env s =
     (if \<not> calibrated s then (Inr NaN, s, [LoggerError ''Camera not calibrated yet''])
      else
        (case poll_try cv env s of
           (Inl (Exception e), s', evs) \<Rightarrow> (Inr NaN, s', evs @ [LoggingError e])
         | (Inl (SystemExit c), s', evs) \<Rightarrow> (Inl (SystemExit c), s', evs)
         | (Inr a, s', evs) \<Rightarrow> (Inr a, s', evs)))"
  by (simp add: poll_def prog_defs split: prod.splits sum.splits stop.splits)


lemma poll_never_raises: "fst (poll cv env s) \<noteq> Inl (Exception e)"
  by (simp add: poll_eq split: prod.splits sum.splits stop.splits)

lemma poll_completes:
  assumes c: "calibrated s"
    and d: "frame_d env = Inr img" and t: "frame_t env = Inr pose"
    and tr: "translation pose = (x, y, z)" and m: "t2m s = Some M"
    and ok: "show_gui s \<and> detect_mode s \<longrightarrow> (\<exists>r. fst (get_trans_mat cv img s) = Inr r)"
  shows "fst (poll cv env s) =
           (if show_gui s \<and> (key env AND 0xFF = 113 \<or> key env = 27) then Inl (SystemExit 0)
            else Inr (Loc (take3 (matvec4 M (x, y, z, 1)))))
         \<and> location (fst (snd (poll cv env s))) = take3 (matvec4 M (x, y, z, 1))"
proof -
  let ?L = "take3 (matvec4 M (x, y, z, 1))"
  let ?s1 = "s\<lparr>location := ?L\<rparr>"
  note pt = poll_try_eq [OF d t tr, of cv s]
  show ?thesis
  proof (cases "show_gui s")
    case False
    then show ?thesis
      using c m by (simp add: poll_eq pt)
  next
    case True
    obtain r s' evs where g: "poll_gui cv env img ?s1 = (r, s', evs)"
      by (cases "poll_gui cv env img ?s1") auto
    have "detect_mode ?s1 \<Longrightarrow> \<exists>r. fst (get_trans_mat cv img ?s1) = Inr r"
      using ok True get_trans_mat_result_indep [of cv img ?s1 s] by simp
    from poll_gui_result_ok [OF this, of env]
    have r: "r = (if key env AND 0xFF = 113 \<or> key env = 27 then Inl (SystemExit 0) else Inr ())"
      using g by simp
    obtain b where "s' = ?s1\<lparr>detect_mode := b\<rparr>"
      using poll_gui_state [of cv env img ?s1] g by auto
    then have l: "location s' = ?L" by simp
    show ?thesis
      using c m True g r l by (simp add: poll_eq pt)
  qed
qed

lemma rig_t2m:
  "matmul4 rig_d2m base_c2c = ((1, 0, 0, 0), (0, - 1, 0, 0), (0, 0, - 1, - 2), (0, 0, 0, 1))"
  by (simp add: matmul4_def transpose4_def matvec4_def dot4_def rig_d2m_def base_c2c_def)

text \<open>
  Claim C3, as the code has it. A call of \<^verbatim>\<open>poll\<close> on an engine that is not calibrated
  logs an error and returns the not-a-number sentinel, reading nothing. On a calibrated
  engine no exception of class \<^verbatim>\<open>Exception\<close> ever leaves the call: a failed read of either
  sensor, a transform that is not set, or a failure of the marker processing in the
  display's detect mode gives the sentinel. When nothing fails the call stores and returns
  the 3-vector \<open>(t2m @ [x, y, z, 1])[0:3]\<close> of the tracker translation \<open>(x, y, z)\<close>, except
  that with the display on, the key \<open>q\<close> or \<open>Esc\<close> ends the call by \<^verbatim>\<open>sys.exit(0)\<close>, which the
  \<^verbatim>\<open>except Exception\<close> clause does not catch.
\<close>

theorem poll_outcome:
  "(\<not> calibrated s \<longrightarrow>
      poll cv env s = (Inr NaN, s, [LoggerError ''Camera not calibrated yet'']))
   \<and> result_of (poll cv env s) \<noteq> Inl (Exception e)
   \<and> (calibrated s \<and> (frame_d env = Inl e \<or> frame_t env = Inl e \<or> t2m s = None) \<longrightarrow>
        result_of (poll cv env s) = Inr NaN)
   \<and> (calibrated s \<and> frame_d env = Inr img \<and> frame_t env = Inr pose \<and> t2m s = Some M
        \<and> show_gui s \<and> detect_mode s
        \<and> result_of (get_trans_mat cv img s) = Inl (Exception e) \<longrightarrow>
        result_of (poll cv env s) = Inr NaN)
   \<and> (calibrated s \<and> frame_d env = Inr img \<and> frame_t env = Inr pose
        \<and> translation pose = (x, y, z) \<and> t2m s = Some M
        \<and> (show_gui s \<and> detect_mode s \<longrightarrow> (\<exists>r. result_of (get_trans_mat cv img s) = Inr r)) \<longrightarrow>
        result_of (poll cv env s) =
          (if show_gui s \<and> (key env AND 0xFF = 113 \<or> key env = 27) then Inl (SystemExit 0)
           else Inr (Loc (take3 (matvec4 M (x, y, z, 1)))))
        \<and> location (state_of (poll cv env s)) = take3 (matvec4 M (x, y, z, 1)))"
proof (intro conjI impI)
  show "poll cv env s = (Inr NaN, s, [LoggerError ''Camera not calibrated yet''])"
    if "\<not> calibrated s"
    using that by (simp add: poll_eq)
  show "result_of (poll cv env s) \<noteq> Inl (Exception e)"
    by (simp add: result_of_def poll_never_raises)
  show "result_of (poll cv env s) = Inr NaN"
    if h: "calibrated s \<and> (frame_d env = Inl e \<or> frame_t env = Inl e \<or> t2m s = None)"
  proof (cases "frame_d env")
    case (Inl a)
    then show ?thesis using h by (simp add: result_of_def poll_eq poll_try_read_d_fails)
  next
    case d: (Inr img')
    show ?thesis
    proof (cases "frame_t env")
      case (Inl a)
      then show ?thesis
        using h d by (simp add: result_of_def poll_eq poll_try_read_t_fails [OF d])
    next
      case t: (Inr pose')
      obtain a b c where tr: "translation pose' = (a, b, c)"
        by (cases "translation pose'") auto
      from h d t have "t2m s = None" by auto
      then show ?thesis
        using h by (simp add: result_of_def poll_eq poll_try_eq [OF d t tr])
    qed
  qed
  show "result_of (poll cv env s) = Inr NaN"
    if h: "calibrated s \<and> frame_d env = Inr img \<and> frame_t env = Inr pose \<and> t2m s = Some M
        \<and> show_gui s \<and> detect_mode s
        \<and> result_of (get_trans_mat cv img s) = Inl (Exception e)"
  proof -
    obtain a b c where tr: "translation pose = (a, b, c)"
      by (cases "translation pose") auto
    let ?s1 = "s\<lparr>location := take3 (matvec4 M (a, b, c, 1))\<rparr>"
    have "fst (get_trans_mat cv img ?s1) = Inl (Exception e)"
      using h get_trans_mat_result_indep [of cv img ?s1 s] by (simp add: result_of_def)
    from poll_gui_result_fail [OF _ this, of env]
    have "fst (poll_gui cv env img ?s1) = Inl (Exception e)" using h by simp
    then show ?thesis
      using h tr
      by (cases "poll_gui cv env img ?s1")
        (simp add: result_of_def poll_eq poll_try_eq [where img = img and pose = pose])
  qed
  assume h: "calibrated s \<and> frame_d env = Inr img \<and> frame_t env = Inr pose
        \<and> translation pose = (x, y, z) \<and> t2m s = Some M
        \<and> (show_gui s \<and> detect_mode s \<longrightarrow> (\<exists>r. result_of (get_trans_mat cv img s) = Inr r))"
  then have ok: "show_gui s \<and> detect_mode s \<longrightarrow> (\<exists>r. fst (get_trans_mat cv img s) = Inr r)"
    by (simp add: result_of_def)
  from h have c: "calibrated s" and d: "frame_d env = Inr img" and t: "frame_t env = Inr pose"
    and tr: "translation pose = (x, y, z)" and m: "t2m s = Some M"
    by simp_all
  show "result_of (poll cv env s) =
          (if show_gui s \<and> (key env AND 0xFF = 113 \<or> key env = 27) then Inl (SystemExit 0)
           else Inr (Loc (take3 (matvec4 M (x, y, z, 1)))))"
    using poll_completes [OF c d t tr m ok] by (simp add: result_of_def)
  show "location (state_of (poll cv env s)) = take3 (matvec4 M (x, y, z, 1))"
    using poll_completes [OF c d t tr m ok] by (simp add: state_of_def)
qed

theorem poll_outcome_witness:
  "calibrated (rig_calibrated False)
   \<and> frame_d (rig_env quat_level [5] 0) = Inr [5]
   \<and> frame_t (rig_env quat_level [5] 0) = Inr \<lparr>translation = (1, 2, 3), rotation = quat_level\<rparr>
   \<and> t2m (rig_calibrated False) = Some (matmul4 rig_d2m base_c2c)
   \<and> result_of (poll rig_cv (rig_env quat_level [5] 0) (rig_calibrated False)) = Inr (Loc (1, - 2, - 5))"
  using poll_outcome [where s = "rig_calibrated False" and env = "rig_env quat_level [5] 0"
      and cv = rig_cv and img = "[5]" and M = "matmul4 rig_d2m base_c2c"
      and pose = "\<lparr>translation = (1, 2, 3), rotation = quat_level\<rparr>"
      and x = 1 and y = 2 and z = 3]
  by (simp add: rig_calibrated_def rig_new_def init_RS_D_T_def rig_env_def rig_t2m
      take3_def matvec4_def dot4_def)

text \<open>
  The claim as written, for every call, fails with the display on when \<open>q\<close> is pressed:
  the engine is calibrated and nothing fails, and the call neither returns the location
  nor the sentinel.
\<close>

theorem poll_quit_counterexample:
  "calibrated (rig_calibrated True)
   \<and> frame_d (rig_env quat_level [5] 113) = Inr [5]
   \<and> frame_t (rig_env quat_level [5] 113) = Inr \<lparr>translation = (1, 2, 3), rotation = quat_level\<rparr>
   \<and> t2m (rig_calibrated True) = Some (matmul4 rig_d2m base_c2c)
   \<and> result_of (poll rig_cv (rig_env quat_level [5] 113) (rig_calibrated True)) = Inl (SystemExit 0)
   \<and> result_of (poll rig_cv (rig_env quat_level [5] 113) (rig_calibrated True)) \<noteq> Inr NaN
   \<and> result_of (poll rig_cv (rig_env quat_level [5] 113) (rig_calibrated True)) \<noteq> Inr (Loc (1, - 2, - 5))"
proof -
  have d: "frame_d (rig_env quat_level [5] 113) = Inr [5]"
    and t: "frame_t (rig_env quat_level [5] 113) = Inr \<lparr>translation = (1, 2, 3), rotation = quat_level\<rparr>"
    and k: "key (rig_env quat_level [5] 113) = 113"
    by (simp_all add: rig_env_def)
  have tr: "translation \<lparr>translation = (1, 2, 3), rotation = quat_level\<rparr> = (1, 2, 3)"
    by simp
  show ?thesis
    by (simp add: result_of_def poll_eq poll_try_eq [OF d t tr] poll_gui_eq k d t
        rig_calibrated_def rig_new_def init_RS_D_T_def)
qed

subsection \<open>The order of the two reads\<close>

lemma calibrate_tick_take2:
  assumes "frame_t env = Inr pose"
  shows "take 2 (snd (snd (calibrate_tick cv show_img env s))) = [WaitForFrames Pipe_t, WaitForFrames Pipe_d]
         \<and> filter is_read (snd (snd (calibrate_tick cv show_img env s))) = [WaitForFrames Pipe_t, WaitForFrames Pipe_d]"
proof (cases "frame_d env")
  case (Inl e)
  then show ?thesis using assms by (simp add: calibrate_tick_def prog_defs)
next
  case d: (Inr img)
  show ?thesis
  proof (cases "rvec_to_rpy (rotation pose)")
    case (Inl e)
    then show ?thesis
      using assms d
      by (cases "translation pose") (simp add: calibrate_tick_def prog_defs pose_frame_data_def)
  next
    case (Inr rpy)
    from calibrate_tick_parts(3) [OF assms d this, of cv show_img s]
    show ?thesis by (simp add: events_of_def calibrate_attempt_no_reads)
  qed
qed

lemma poll_take2:
  assumes "calibrated s" and d: "frame_d env = Inr img"
  shows "take 2 (snd (snd (poll cv env s))) = [WaitForFrames Pipe_d, WaitForFrames Pipe_t]
         \<and> filter is_read (snd (snd (poll cv env s))) = [WaitForFrames Pipe_d, WaitForFrames Pipe_t]"
proof (cases "frame_t env")
  case (Inl e)
  then show ?thesis using assms by (simp add: poll_eq poll_try_read_t_fails [OF d])
next
  case t: (Inr pose)
  obtain a b c where tr: "translation pose = (a, b, c)"
    by (cases "translation pose") auto
  show ?thesis
  proof (cases "t2m s")
    case None
    then show ?thesis using assms by (simp add: poll_eq poll_try_eq [OF d t tr])
  next
    case (Some M)
    show ?thesis
    proof (cases "show_gui s")
      case False
      then show ?thesis using assms Some by (simp add: poll_eq poll_try_eq [OF d t tr])
    next
      case True
      let ?s1 = "s\<lparr>location := take3 (matvec4 M (a, b, c, 1))\<rparr>"
      obtain r s' evs where g: "poll_gui cv env img ?s1 = (r, s', evs)"
        by (cases "poll_gui cv env img ?s1") auto
      then have "filter is_read evs = []"
        using poll_gui_no_reads [of cv env img ?s1] by simp
      then show ?thesis
        using assms Some True g
        by (simp add: poll_eq poll_try_eq [OF d t tr] split: sum.splits stop.splits)
    qed
  qed
qed

text \<open>
  Claim C7, as the code has it. A calibration tick reads the tracker first and the camera
  second, before anything else happens in the tick; when the tracker read fails the
  camera is not read. A call of \<^verbatim>\<open>poll\<close> on a calibrated engine reads the camera first and
  the tracker second, before anything else; when the camera read fails the tracker is not
  read. A call of \<^verbatim>\<open>poll\<close> on an engine that is not calibrated reads nothing.
\<close>

theorem read_order:
  "(frame_t env = Inr pose \<longrightarrow>
      take 2 (events_of (calibrate_tick cv show_img env s)) = [WaitForFrames Pipe_t, WaitForFrames Pipe_d]
      \<and> reads_of (events_of (calibrate_tick cv show_img env s)) = [WaitForFrames Pipe_t, WaitForFrames Pipe_d])
   \<and> (frame_t env = Inl e \<longrightarrow>
        events_of (calibrate_tick cv show_img env s) = [WaitForFrames Pipe_t])
   \<and> (calibrated s \<and> frame_d env = Inr img \<longrightarrow>
        take 2 (events_of (poll cv env s)) = [WaitForFrames Pipe_d, WaitForFrames Pipe_t]
        \<and> reads_of (events_of (poll cv env s)) = [WaitForFrames Pipe_d, WaitForFrames Pipe_t])
   \<and> (calibrated s \<and> frame_d env = Inl e \<longrightarrow>
        events_of (poll cv env s) = [WaitForFrames Pipe_d, LoggingError e])
   \<and> (\<not> calibrated s \<longrightarrow> reads_of (events_of (poll cv env s)) = [])"
proof (intro conjI impI)
  assume t: "frame_t env = Inr pose"
  show "take 2 (events_of (calibrate_tick cv show_img env s)) = [WaitForFrames Pipe_t, WaitForFrames Pipe_d]"
    using calibrate_tick_take2 [OF t] by (simp add: events_of_def)
  show "reads_of (events_of (calibrate_tick cv show_img env s)) = [WaitForFrames Pipe_t, WaitForFrames Pipe_d]"
    using calibrate_tick_take2 [OF t] by (simp add: events_of_def reads_of_def)
next
  assume "frame_t env = Inl e"
  then show "events_of (calibrate_tick cv show_img env s) = [WaitForFrames Pipe_t]"
    by (simp add: events_of_def calibrate_tick_def prog_defs)
next
  assume h: "calibrated s \<and> frame_d env = Inr img"
  then have c: "calibrated s" and d: "frame_d env = Inr img" by simp_all
  show "take 2 (events_of (poll cv env s)) = [WaitForFrames Pipe_d, WaitForFrames Pipe_t]"
    using poll_take2 [OF c d] by (simp add: events_of_def)
  show "reads_of (events_of (poll cv env s)) = [WaitForFrames Pipe_d, WaitForFrames Pipe_t]"
    using poll_take2 [OF c d] by (simp add: events_of_def reads_of_def)
next
  assume "calibrated s \<and> frame_d env = Inl e"
  then show "events_of (poll cv env s) = [WaitForFrames Pipe_d, LoggingError e]"
    by (simp add: events_of_def poll_eq poll_try_read_d_fails)
next
  assume "\<not> calibrated s"
  then show "reads_of (events_of (poll cv env s)) = []"
    by (simp add: events_of_def reads_of_def poll_eq)
qed

theorem read_order_witness:
  "frame_t (rig_env quat_level [5] 0) = Inr \<lparr>translation = (1, 2, 3), rotation = quat_level\<rparr>
   \<and> frame_d (rig_env quat_level [5] 0) = Inr [5]
   \<and> calibrated (rig_calibrated False)
   \<and> reads_of (events_of (calibrate_tick rig_cv False (rig_env quat_level [5] 0) (rig_new False)))
       = [WaitForFrames Pipe_t, WaitForFrames Pipe_d]
   \<and> reads_of (events_of (poll rig_cv (rig_env quat_level [5] 0) (rig_calibrated False)))
       = [WaitForFrames Pipe_d, WaitForFrames Pipe_t]"
  using read_order [where env = "rig_env quat_level [5] 0" and cv = rig_cv and img = "[5]"
      and pose = "\<lparr>translation = (1, 2, 3), rotation = quat_level\<rparr>"
      and s = "rig_new False" and show_img = False]
    read_order [where env = "rig_env quat_level [5] 0" and cv = rig_cv and img = "[5]"
      and s = "rig_calibrated False"]
  by (simp add: rig_env_def rig_calibrated_def rig_new_def init_RS_D_T_def)

text \<open>
  The claim as written, tracker first in \<^verbatim>\<open>poll\<close> too, fails on any call of \<^verbatim>\<open>poll\<close> on a
  calibrated engine.
\<close>

theorem poll_read_order_counterexample:
  "calibrated (rig_calibrated False)
   \<and> events_of (poll rig_cv (rig_env quat_level [5] 0) (rig_calibrated False))
       = [WaitForFrames Pipe_d, WaitForFrames Pipe_t]
   \<and> reads_of (events_of (poll rig_cv (rig_env quat_level [5] 0) (rig_calibrated False)))
       \<noteq> [WaitForFrames Pipe_t, WaitForFrames Pipe_d]"
proof -
  have d: "frame_d (rig_env quat_level [5] 0) = Inr [5]"
    and t: "frame_t (rig_env quat_level [5] 0) = Inr \<lparr>translation = (1, 2, 3), rotation = quat_level\<rparr>"
    by (simp_all add: rig_env_def)
  have tr: "translation \<lparr>translation = (1, 2, 3), rotation = quat_level\<rparr> = (1, 2, 3)"
    by simp
  show ?thesis
    by (simp add: events_of_def reads_of_def poll_eq poll_try_eq [OF d t tr]
        rig_calibrated_def rig_new_def init_RS_D_T_def)
qed

subsection \<open>The calibration state\<close>

lemma store_matrices_sets:
  assumes "\<not> calibrated s" and "calibrated (fst (snd (store_matrices cv d2m' t_rvec t_tvec s)))"
  shows "d2m (fst (snd (store_matrices cv d2m' t_rvec t_tvec s))) \<noteq> None
       \<and> t2d (fst (snd (store_matrices cv d2m' t_rvec t_tvec s))) \<noteq> None
       \<and> t2m (fst (snd (store_matrices cv d2m' t_rvec t_tvec s))) \<noteq> None"
  using assms
  by (auto simp add: store_matrices_eq simp del: not_None_eq split: sum.splits option.splits)

lemma calibrate_attempt_sets:
  assumes n: "\<not> calibrated s"
    and c: "calibrated (fst (snd (calibrate_attempt cv show_img img t_tvec t_rvec rpy s)))"
  shows "d2m (fst (snd (calibrate_attempt cv show_img img t_tvec t_rvec rpy s))) \<noteq> None
       \<and> t2d (fst (snd (calibrate_attempt cv show_img img t_tvec t_rvec rpy s))) \<noteq> None
       \<and> t2m (fst (snd (calibrate_attempt cv show_img img t_tvec t_rvec rpy s))) \<noteq> None"
proof -
  obtain r evs where g: "get_trans_mat cv img s = (r, s, evs)"
    using get_trans_mat_events [of cv img s] by (cases "get_trans_mat cv img s") auto
  show ?thesis
  proof (cases show_img)
    case True
    show ?thesis
    proof (cases r)
      case (Inl e)
      then show ?thesis using n c g True by (simp add: calibrate_attempt_show)
    next
      case (Inr x)
      obtain d2m' tv rv where x: "x = (d2m', tv, rv)" by (cases x) auto
      show ?thesis
      proof (cases "\<not> (max (rpy ! 0) (rpy ! 2) > calibrate_thres s \<or> d2m' = None)")
        case False
        then show ?thesis
          using n c g True Inr x by (auto simp add: calibrate_attempt_show)
      next
        case go: True
        obtain r' s' evs' where st: "store_matrices cv d2m' t_rvec t_tvec s = (r', s', evs')"
          by (cases "store_matrices cv d2m' t_rvec t_tvec s") auto
        have eq: "fst (snd (calibrate_attempt cv show_img img t_tvec t_rvec rpy s)) = s'"
          using g True Inr x go st by (simp add: calibrate_attempt_show del: not_None_eq)
        show ?thesis
          using store_matrices_sets [OF n, of cv d2m' t_rvec t_tvec] c st
          unfolding eq by simp
      qed
    qed
  next
    case False
    show ?thesis
    proof (cases "max (rpy ! 0) (rpy ! 2) > calibrate_thres s")
      case True
      then show ?thesis using n c False by (simp add: calibrate_attempt_cli_reject)
    next
      case pass: False
      show ?thesis
      proof (cases r)
        case (Inl e)
        then show ?thesis using n c g False pass by (simp add: calibrate_attempt_cli_pass)
      next
        case (Inr x)
        obtain d2m' tv rv where x: "x = (d2m', tv, rv)" by (cases x) auto
        show ?thesis
        proof (cases "d2m' = None")
          case True
          then show ?thesis
            using n c g False pass Inr x by (simp add: calibrate_attempt_cli_pass)
        next
          case go: False
          obtain r' s' evs' where st: "store_matrices cv d2m' t_rvec t_tvec s = (r', s', evs')"
            by (cases "store_matrices cv d2m' t_rvec t_tvec s") auto
          have eq: "fst (snd (calibrate_attempt cv show_img img t_tvec t_rvec rpy s)) = s'"
            using g False pass Inr x go st
            by (simp add: calibrate_attempt_cli_pass del: not_None_eq)
          show ?thesis
            using store_matrices_sets [OF n, of cv d2m' t_rvec t_tvec] c st
            unfolding eq by simp
        qed
      qed
    qed
  qed
qed

lemma calibrate_tick_sets:
  assumes n: "\<not> calibrated s"
    and c: "calibrated (fst (snd (calibrate_tick cv show_img env s)))"
  shows "d2m (fst (snd (calibrate_tick cv show_img env s))) \<noteq> None
       \<and> t2d (fst (snd (calibrate_tick cv show_img env s))) \<noteq> None
       \<and> t2m (fst (snd (calibrate_tick cv show_img env s))) \<noteq> None"
proof (cases "frame_t env")
  case (Inl e)
  then show ?thesis using n c by (simp add: calibrate_tick_def prog_defs)
next
  case t: (Inr pose)
  show ?thesis
  proof (cases "frame_d env")
    case (Inl e)
    then show ?thesis using n c t by (simp add: calibrate_tick_def prog_defs)
  next
    case d: (Inr img)
    show ?thesis
    proof (cases "rvec_to_rpy (rotation pose)")
      case (Inl e)
      then show ?thesis
        using n c t d
        by (cases "translation pose") (simp add: calibrate_tick_def prog_defs pose_frame_data_def)
    next
      case (Inr rpy)
      note parts = calibrate_tick_parts(2) [OF t d Inr, unfolded state_of_def]
      show ?thesis
        using calibrate_attempt_sets [OF n, of cv show_img img _ _ rpy] c
        by (simp add: parts)
    qed
  qed
qed

lemma calibrate_loop_calibrated:
  "calibrated s \<Longrightarrow> calibrate_loop cv show_img envs s = (Some (Inr ()), s, [])"
  by (cases envs) simp_all

lemma calibrate_loop_sets:
  assumes "calibrated s \<longrightarrow> d2m s \<noteq> None \<and> t2d s \<noteq> None \<and> t2m s \<noteq> None"
    and "calibrated (fst (snd (calibrate_loop cv show_img envs s)))"
  shows "d2m (fst (snd (calibrate_loop cv show_img envs s))) \<noteq> None
       \<and> t2d (fst (snd (calibrate_loop cv show_img envs s))) \<noteq> None
       \<and> t2m (fst (snd (calibrate_loop cv show_img envs s))) \<noteq> None"
  using assms
proof (induction envs arbitrary: s)
  case Nil
  then show ?case by (simp split: if_splits)
next
  case (Cons env envs)
  show ?case
  proof (cases "calibrated s")
    case True
    then show ?thesis using Cons.prems by simp
  next
    case n: False
    obtain r s' evs where tk: "calibrate_tick cv show_img env s = (r, s', evs)"
      by (cases "calibrate_tick cv show_img env s") auto
    have inv': "calibrated s' \<longrightarrow> d2m s' \<noteq> None \<and> t2d s' \<noteq> None \<and> t2m s' \<noteq> None"
      using calibrate_tick_sets [OF n, of cv show_img env] tk by simp
    show ?thesis
    proof (cases r)
      case (Inl e)
      then show ?thesis using n tk inv' Cons.prems(2) by simp
    next
      case (Inr u)
      have "fst (snd (calibrate_loop cv show_img (env # envs) s))
              = fst (snd (calibrate_loop cv show_img envs s'))"
        using n tk Inr by (simp add: tick_state)
      then show ?thesis
        using Cons.IH [OF inv'] Cons.prems(2) by simp
    qed
  qed
qed


lemma poll_try_state:
  "\<exists>l b. fst (snd (poll_try cv env s)) = s\<lparr>location := l, detect_mode := b\<rparr>"
proof -
  have keep: "s = s\<lparr>location := location s, detect_mode := detect_mode s\<rparr>" by simp
  show ?thesis
  proof (cases "frame_d env")
    case (Inl e)
    then show ?thesis using keep by (metis poll_try_read_d_fails fst_conv snd_conv)
  next
    case d: (Inr img)
    show ?thesis
    proof (cases "frame_t env")
      case (Inl e)
      then show ?thesis using keep by (metis poll_try_read_t_fails [OF d] fst_conv snd_conv)
    next
      case t: (Inr pose)
      obtain a b c where tr: "translation pose = (a, b, c)"
        by (cases "translation pose") auto
      show ?thesis
      proof (cases "t2m s")
        case None
        then have "fst (snd (poll_try cv env s)) = s"
          by (simp add: poll_try_eq [OF d t tr])
        then show ?thesis using keep by metis
      next
        case (Some M)
        let ?s1 = "s\<lparr>location := take3 (matvec4 M (a, b, c, 1))\<rparr>"
        show ?thesis
        proof (cases "show_gui s")
          case False
          then have "fst (snd (poll_try cv env s)) = ?s1\<lparr>detect_mode := detect_mode s\<rparr>"
            using Some by (simp add: poll_try_eq [OF d t tr])
          then show ?thesis by blast
        next
          case True
          obtain b' where "fst (snd (poll_gui cv env img ?s1)) = ?s1\<lparr>detect_mode := b'\<rparr>"
            using poll_gui_state [of cv env img ?s1] by blast
          then have "fst (snd (poll_try cv env s)) = ?s1\<lparr>detect_mode := b'\<rparr>"
            using Some True
            by (cases "poll_gui cv env img ?s1")
              (auto simp add: poll_try_eq [OF d t tr] split: sum.splits)
          then show ?thesis by blast
        qed
      qed
    qed
  qed
qed

lemma poll_state_keeps:
  "calibrated (fst (snd (poll cv env s))) = calibrated s
   \<and> d2m (fst (snd (poll cv env s))) = d2m s
   \<and> t2d (fst (snd (poll cv env s))) = t2d s
   \<and> t2m (fst (snd (poll cv env s))) = t2m s"
proof (cases "calibrated s")
  case False
  then show ?thesis by (simp add: poll_eq)
next
  case True
  obtain l b where st: "fst (snd (poll_try cv env s)) = s\<lparr>location := l, detect_mode := b\<rparr>"
    using poll_try_state by blast
  have "fst (snd (poll cv env s)) = fst (snd (poll_try cv env s))"
    using True by (simp add: poll_eq split: prod.splits sum.splits stop.splits)
  then show ?thesis using st by simp
qed

lemma calibrate_calibrated:
  "calibrated s \<Longrightarrow>
     calibrate cv show_img envs s = (Some (Inr ()), s, [LoggerDebug ''Calibration process starts''])"
  by (simp add: calibrate_def calibrate_loop_calibrated)

lemma call_state_keeps:
  assumes "calibrated s"
  shows "calibrated (call_state cv c s) \<and> d2m (call_state cv c s) = d2m s
       \<and> t2d (call_state cv c s) = t2d s \<and> t2m (call_state cv c s) = t2m s"
proof (cases c)
  case (Calibrate show_img envs)
  then show ?thesis using assms by (simp add: calibrate_calibrated)
next
  case (Poll env)
  then show ?thesis using assms poll_state_keeps [of cv env s] by (simp add: state_of_def)
next
  case GetIntrinsics
  then show ?thesis using assms by (simp add: state_of_def get_intrinsics_def prog_defs)
next
  case Stop
  then show ?thesis using assms by (simp add: state_of_def stop_def prog_defs)
next
  case StartDetect
  then show ?thesis using assms by (simp add: state_of_def start_detect_def prog_defs)
next
  case StopDetect
  then show ?thesis using assms by (simp add: state_of_def stop_detect_def prog_defs)
qed

lemma run_calls_keeps:
  "calibrated s \<Longrightarrow>
     calibrated (run_calls cv cs s) \<and> d2m (run_calls cv cs s) = d2m s
     \<and> t2d (run_calls cv cs s) = t2d s \<and> t2m (run_calls cv cs s) = t2m s"
proof (induction cs arbitrary: s)
  case Nil
  then show ?case by simp
next
  case (Cons c cs)
  from call_state_keeps [OF Cons.prems, of cv c] Cons.IH [of "call_state cv c s"]
  show ?case by simp
qed

lemma call_state_sets:
  assumes "calibrated s \<longrightarrow> d2m s \<noteq> None \<and> t2d s \<noteq> None \<and> t2m s \<noteq> None"
  shows "calibrated (call_state cv c s) \<longrightarrow>
           d2m (call_state cv c s) \<noteq> None \<and> t2d (call_state cv c s) \<noteq> None
           \<and> t2m (call_state cv c s) \<noteq> None"
proof (cases c)
  case (Calibrate show_img envs)
  have "fst (snd (calibrate cv show_img envs s)) = fst (snd (calibrate_loop cv show_img envs s))"
    by (simp add: calibrate_def tick_state)
  then show ?thesis
    using Calibrate calibrate_loop_sets [OF assms, of cv show_img envs] by simp
next
  case (Poll env)
  then show ?thesis using assms poll_state_keeps [of cv env s] by (simp add: state_of_def)
next
  case GetIntrinsics
  then show ?thesis using assms by (simp add: state_of_def get_intrinsics_def prog_defs)
next
  case Stop
  then show ?thesis using assms by (simp add: state_of_def stop_def prog_defs)
next
  case StartDetect
  then show ?thesis using assms by (simp add: state_of_def start_detect_def prog_defs)
next
  case StopDetect
  then show ?thesis using assms by (simp add: state_of_def stop_detect_def prog_defs)
qed

lemma run_calls_sets:
  "calibrated s \<longrightarrow> d2m s \<noteq> None \<and> t2d s \<noteq> None \<and> t2m s \<noteq> None \<Longrightarrow>
     calibrated (run_calls cv cs s) \<longrightarrow>
       d2m (run_calls cv cs s) \<noteq> None \<and> t2d (run_calls cv cs s) \<noteq> None
       \<and> t2m (run_calls cv cs s) \<noteq> None"
proof (induction cs arbitrary: s)
  case Nil
  then show ?case by simp
next
  case (Cons c cs)
  from Cons.IH [OF call_state_sets [OF Cons.prems, of cv c]]
  show ?case by simp
qed

lemma rig_tick_calibrates:
  "calibrate_tick rig_cv False (rig_env quat_level [5] 0) (rig_new False) =
     (Inr (), rig_calibrated False,
      [WaitForFrames Pipe_t, WaitForFrames Pipe_d, Sleep, DetectMarkers, EstimatePoseSingleMarkers,
       Print (Str ''calibration success: matrices loaded'')])"
proof -
  have t: "frame_t (rig_env quat_level [5] 0) = Inr \<lparr>translation = (1, 2, 3), rotation = quat_level\<rparr>"
    and d: "frame_d (rig_env quat_level [5] 0) = Inr [5]"
    by (simp_all add: rig_env_def)
  have r: "rvec_to_rpy (rotation \<lparr>translation = (1, 2, 3), rotation = quat_level\<rparr>) = Inr [0, 0, 0]"
    by (simp add: rig_level_rpy)
  have n: "\<not> max ([0, 0, 0] ! 0) ([0, 0, 0] ! 2) > calibrate_thres (rig_new False)"
    by (simp add: rig_new_def init_RS_D_T_def)
  have g: "show_gui (rig_new False) = False" "use_default_cam2cam (rig_new False)"
    by (simp_all add: rig_new_def init_RS_D_T_def)
  show ?thesis
    by (simp add: calibrate_tick_eq [OF t d r] calibrate_attempt_cli_pass [OF n] rig_one_marker g
        store_matrices_eq cam2cam_def rig_calibrated_def del: not_None_eq)
qed

lemma rig_calibrate:
  "calibrate rig_cv False [rig_env quat_level [5] 0] (rig_new False) =
     (Some (Inr ()), rig_calibrated False,
      [LoggerDebug ''Calibration process starts'',
       WaitForFrames Pipe_t, WaitForFrames Pipe_d, Sleep, DetectMarkers, EstimatePoseSingleMarkers,
       Print (Str ''calibration success: matrices loaded'')])"
proof -
  have "\<not> calibrated (rig_new False)" "calibrated (rig_calibrated False)"
    by (simp_all add: rig_new_def init_RS_D_T_def rig_calibrated_def)
  then show ?thesis
    by (simp add: calibrate_def rig_tick_calibrates)
qed

text \<open>
  Claim C4. Once \<^verbatim>\<open>calibrated\<close> is true, every public method of the engine
  (\<^verbatim>\<open>calibrate\<close>, \<^verbatim>\<open>poll\<close>, \<^verbatim>\<open>get_intrinsics\<close>, \<^verbatim>\<open>stop\<close>, \<^verbatim>\<open>start_detect\<close>, \<^verbatim>\<open>stop_detect\<close>), and
  every sequence of them, leaves it true and leaves \<^verbatim>\<open>d2m\<close>, \<^verbatim>\<open>t2d\<close> and \<^verbatim>\<open>t2m\<close> as they are;
  a further call of \<^verbatim>\<open>calibrate\<close> returns at once, with the state unchanged and without
  reading a sensor; and in every state reached from a new engine by public methods,
  \<^verbatim>\<open>calibrated\<close> implies that \<^verbatim>\<open>d2m\<close>, \<^verbatim>\<open>t2d\<close> and \<^verbatim>\<open>t2m\<close> are not \<^verbatim>\<open>None\<close>.
\<close>

theorem calibration_one_way:
  "(calibrated s \<longrightarrow>
      calibrated (call_state cv c s) \<and> d2m (call_state cv c s) = d2m s
      \<and> t2d (call_state cv c s) = t2d s \<and> t2m (call_state cv c s) = t2m s)
   \<and> (calibrated s \<longrightarrow>
        calibrated (run_calls cv cs s) \<and> d2m (run_calls cv cs s) = d2m s
        \<and> t2d (run_calls cv cs s) = t2d s \<and> t2m (run_calls cv cs s) = t2m s)
   \<and> (calibrated s \<longrightarrow>
        calibrate cv show_img envs s =
          (Some (Inr ()), s, [LoggerDebug ''Calibration process starts'']))
   \<and> (calibrated (run_calls cv cs (init_RS_D_T GUI mtx coeffs)) \<longrightarrow>
        d2m (run_calls cv cs (init_RS_D_T GUI mtx coeffs)) \<noteq> None
        \<and> t2d (run_calls cv cs (init_RS_D_T GUI mtx coeffs)) \<noteq> None
        \<and> t2m (run_calls cv cs (init_RS_D_T GUI mtx coeffs)) \<noteq> None)"
proof (intro conjI)
  show "calibrated s \<longrightarrow>
      calibrated (call_state cv c s) \<and> d2m (call_state cv c s) = d2m s
      \<and> t2d (call_state cv c s) = t2d s \<and> t2m (call_state cv c s) = t2m s"
    using call_state_keeps by blast
  show "calibrated s \<longrightarrow>
        calibrated (run_calls cv cs s) \<and> d2m (run_calls cv cs s) = d2m s
        \<and> t2d (run_calls cv cs s) = t2d s \<and> t2m (run_calls cv cs s) = t2m s"
    using run_calls_keeps by blast
  show "calibrated s \<longrightarrow>
        calibrate cv show_img envs s =
          (Some (Inr ()), s, [LoggerDebug ''Calibration process starts''])"
    using calibrate_calibrated by blast
  have "calibrated (init_RS_D_T GUI mtx coeffs) \<longrightarrow>
          d2m (init_RS_D_T GUI mtx coeffs) \<noteq> None \<and> t2d (init_RS_D_T GUI mtx coeffs) \<noteq> None
          \<and> t2m (init_RS_D_T GUI mtx coeffs) \<noteq> None"
    by (simp add: init_RS_D_T_def)
  from run_calls_sets [OF this]
  show "calibrated (run_calls cv cs (init_RS_D_T GUI mtx coeffs)) \<longrightarrow>
        d2m (run_calls cv cs (init_RS_D_T GUI mtx coeffs)) \<noteq> None
        \<and> t2d (run_calls cv cs (init_RS_D_T GUI mtx coeffs)) \<noteq> None
        \<and> t2m (run_calls cv cs (init_RS_D_T GUI mtx coeffs)) \<noteq> None" .
qed

theorem calibration_one_way_witness:
  "calibrated (rig_calibrated False)
   \<and> calibrate rig_cv False [rig_env quat_level [5] 0] (rig_calibrated False) =
       (Some (Inr ()), rig_calibrated False, [LoggerDebug ''Calibration process starts''])
   \<and> calibrated (call_state rig_cv (Poll (rig_env quat_level [5] 0)) (rig_calibrated False))
   \<and> calibrated (run_calls rig_cv [Calibrate False [rig_env quat_level [5] 0]] (init_RS_D_T False identity3 []))
   \<and> t2m (run_calls rig_cv [Calibrate False [rig_env quat_level [5] 0]] (init_RS_D_T False identity3 [])) \<noteq> None"
proof -
  have c: "calibrated (rig_calibrated False)"
    by (simp add: rig_calibrated_def)
  have r: "run_calls rig_cv [Calibrate False [rig_env quat_level [5] 0]] (init_RS_D_T False identity3 [])
             = rig_calibrated False"
    using rig_calibrate by (simp add: rig_new_def)
  show ?thesis
    using c r
      calibration_one_way [where s = "rig_calibrated False" and cv = rig_cv
        and c = "Poll (rig_env quat_level [5] 0)" and show_img = False
        and envs = "[rig_env quat_level [5] 0]"
        and cs = "[Calibrate False [rig_env quat_level [5] 0]]" and GUI = False
        and mtx = identity3 and coeffs = "[]"]
    by simp
qed

subsection \<open>Marker processing\<close>

text \<open>
  Claim C8 says that \<^verbatim>\<open>get_trans_mat\<close> returns a transform without raising for every image
  with one or more markers, and the \<^verbatim>\<open>None\<close> triple for an image with none. The code
  tests \<^verbatim>\<open>if ids:\<close> on the array of ids, under the comment that at least one marker is in
  sight. On the rig, an image with the one marker 3 gives the transform and an image with
  no marker gives the \<^verbatim>\<open>None\<close> triple; but an image with the two markers 3 and 7 raises
  \<^verbatim>\<open>ValueError\<close>, which leaves \<^verbatim>\<open>calibrate\<close> uncaught, and an image with the one marker 0
  gives the \<^verbatim>\<open>None\<close> triple as if no marker were in sight.
\<close>

theorem get_trans_mat_marker_ids:
  "result_of (get_trans_mat rig_cv [3, 7] (rig_new False)) = Inl (Exception ValueError)
   \<and> result_of (get_trans_mat rig_cv [0] (rig_new False)) = Inr (None, None, None)
   \<and> result_of (get_trans_mat rig_cv [3] (rig_new False))
       = Inr (Some rig_d2m, Some [(0, 0, 2)], Some [(0, 0, 0)])
   \<and> fst (calibrate rig_cv False [rig_env quat_level [3, 7] 0] (rig_new False))
       = Some (Inl (Exception ValueError))
   \<and> result_of (get_trans_mat rig_cv [] (rig_new False)) = Inr (None, None, None)"
proof -
  have t: "frame_t (rig_env quat_level [3, 7] 0) = Inr \<lparr>translation = (1, 2, 3), rotation = quat_level\<rparr>"
    and d: "frame_d (rig_env quat_level [3, 7] 0) = Inr [3, 7]"
    by (simp_all add: rig_env_def)
  have r: "rvec_to_rpy (rotation \<lparr>translation = (1, 2, 3), rotation = quat_level\<rparr>) = Inr [0, 0, 0]"
    by (simp add: rig_level_rpy)
  have n: "\<not> max ([0, 0, 0] ! 0) ([0, 0, 0] ! 2) > calibrate_thres (rig_new False)"
    "\<not> calibrated (rig_new False)"
    by (simp_all add: rig_new_def init_RS_D_T_def)
  have two: "get_trans_mat rig_cv [3, 7] (rig_new False) = (Inl (Exception ValueError), rig_new False, [DetectMarkers])"
    by (simp add: get_trans_mat_eq rig_cv_def ndarray_bool_def)
  have "fst (calibrate rig_cv False [rig_env quat_level [3, 7] 0] (rig_new False))
       = Some (Inl (Exception ValueError))"
    using n(2)
    by (simp add: calibrate_def calibrate_tick_eq [OF t d r] calibrate_attempt_cli_pass [OF n(1)] two)
  moreover have "result_of (get_trans_mat rig_cv [0] (rig_new False)) = Inr (None, None, None)"
    by (simp add: result_of_def get_trans_mat_eq rig_cv_def ndarray_bool_def)
  moreover have "result_of (get_trans_mat rig_cv [] (rig_new False)) = Inr (None, None, None)"
    by (simp add: result_of_def get_trans_mat_eq rig_cv_def ndarray_bool_def)
  ultimately show ?thesis
    by (simp add: result_of_def two rig_one_marker)
qed

subsection \<open>The tracker server\<close>

lemma strip_example: "strip ('' tracker_1'' @ [CHR 0x0A]) = ''tracker_1''"
  by (simp add: strip_def is_space_def)

text \<open>
  Claim C10, as the code has it. For a datagram whose stripped bytes decode to a device
  name: if the name is in the device registry and the device returns its pose and its
  velocity, \<^verbatim>\<open>handle\<close> sends exactly one datagram, to the client's address, whose payload
  is the encoded text of the JSON document with the members \<open>valid\<close> (true), \<open>x\<close>, \<open>y\<close>, \<open>z\<close>,
  \<open>yaw\<close>, \<open>pitch\<close>, \<open>roll\<close>, \<open>vel_x\<close>, \<open>vel_y\<close>, \<open>vel_z\<close>, \<open>device_name\<close>, in this order, followed
  by a semicolon; if the name is not in the registry, \<^verbatim>\<open>handle\<close> sends nothing. When the
  device is in the registry but returns \<^verbatim>\<open>None\<close> for its pose or its velocity, the
  unpacking raises \<^verbatim>\<open>TypeError\<close> and nothing is sent; when the bytes do not decode, the
  decoding error leaves the handler and nothing is sent.
\<close>

theorem handle_response:
  "(bytes_decode lib (strip request0) = Inr tracker_name
      \<and> devices tracker_name = Some tr
      \<and> get_pose_euler tr = Some (x, y, z, yaw, pitch, roll)
      \<and> get_velocity tr = Some (vel_x, vel_y, vel_z) \<longrightarrow>
      handle lib devices request0 client_address =
        Inr [(str_encode lib
                (json_dumps lib
                   (JObject
                      [(''valid'', JBool True), (''x'', JNumber x), (''y'', JNumber y),
                       (''z'', JNumber z), (''yaw'', JNumber yaw), (''pitch'', JNumber pitch),
                       (''roll'', JNumber roll), (''vel_x'', JNumber vel_x),
                       (''vel_y'', JNumber vel_y), (''vel_z'', JNumber vel_z),
                       (''device_name'', JString tracker_name)]) @ '';''),
              client_address)])
   \<and> (bytes_decode lib (strip request0) = Inr tracker_name \<and> devices tracker_name = None \<longrightarrow>
        handle lib devices request0 client_address = Inr [])
   \<and> (bytes_decode lib (strip request0) = Inr tracker_name \<and> devices tracker_name = Some tr
        \<and> (get_pose_euler tr = None \<or> get_velocity tr = None) \<longrightarrow>
        handle lib devices request0 client_address = Inl TypeError)
   \<and> (bytes_decode lib (strip request0) = Inl e \<longrightarrow>
        handle lib devices request0 client_address = Inl e)"
  by (auto simp add: handle_def ViveTrackerServer_poll_def get_tracker_def
      create_tracker_message_def construct_json_message_def ViveTrackerMessage_json_def
      split: option.splits prod.splits)

theorem handle_response_witness:
  "bytes_decode rig_py (strip ('' tracker_1'' @ [CHR 0x0A])) = Inr ''tracker_1''
   \<and> rig_devices ''tracker_1'' = Some rig_tracker
   \<and> get_pose_euler rig_tracker = Some (1, 2, 3, 10, 20, 30)
   \<and> get_velocity rig_tracker = Some (0, 0, 0)
   \<and> handle rig_py rig_devices ('' tracker_1'' @ [CHR 0x0A]) (0 :: nat) =
       Inr [(''valid:true,x:#,y:#,z:#,yaw:#,pitch:#,roll:#,vel_x:#,vel_y:#,vel_z:#,device_name:tracker_1,;'', 0)]
   \<and> bytes_decode rig_py (strip ''hmd_1'') = Inr ''hmd_1''
   \<and> rig_devices ''hmd_1'' = None
   \<and> handle rig_py rig_devices ''hmd_1'' (0 :: nat) = Inr []"
  using handle_response [where lib = rig_py and devices = rig_devices
      and ?request0.0 = "'' tracker_1'' @ [CHR 0x0A]" and tracker_name = "''tracker_1''"
      and tr = rig_tracker and x = 1 and y = 2 and z = 3 and yaw = 10 and pitch = 20 and roll = 30
      and vel_x = 0 and vel_y = 0 and vel_z = 0 and client_address = "0 :: nat"]
    handle_response [where lib = rig_py and devices = rig_devices
      and ?request0.0 = "''hmd_1''" and tracker_name = "''hmd_1''" and client_address = "0 :: nat"]
  by (simp add: strip_example rig_py_def rig_devices_def rig_tracker_def strip_def is_space_def
      rig_dumps_def rig_member_def)

text \<open>
  The claim as written, one response for every device name found in the registry,
  fails for a device that is registered and returns no pose: the handler raises and sends
  nothing.
\<close>

theorem handle_lost_device_counterexample:
  "bytes_decode rig_py (strip ''tracker_2'') = Inr ''tracker_2''
   \<and> rig_devices ''tracker_2'' = Some rig_tracker_lost
   \<and> handle rig_py rig_devices ''tracker_2'' (0 :: nat) = Inl TypeError"
  by (simp add: handle_def ViveTrackerServer_poll_def get_tracker_def create_tracker_message_def
      rig_py_def rig_devices_def rig_tracker_lost_def strip_def is_space_def)

end
